theory Spec2Isabelle
  imports Main "HOL-Library.Word" "HOL-Library.List_Lexorder" "HOL-Library.Char_ord"
begin

unbundle bit_operations_syntax

section \<open>Go library functions used by the sources\<close>

text \<open>
  Go strings and byte slices are modelled as \<open>string\<close> (a list of bytes).
  The functions below follow the documented behaviour of the Go packages
  \<open>strings\<close> and \<open>bytes\<close> for the way the sources call them.
\<close>

definition HasPrefix :: "string \<Rightarrow> string \<Rightarrow> bool" where
  "HasPrefix s p = (take (length p) s = p)"

definition HasSuffix :: "string \<Rightarrow> string \<Rightarrow> bool" where
  "HasSuffix s suf = (length suf \<le> length s \<and> drop (length s - length suf) s = suf)"

definition TrimSuffix :: "string \<Rightarrow> string \<Rightarrow> string" where
  "TrimSuffix s suf = (if HasSuffix s suf then take (length s - length suf) s else s)"

text \<open>\<open>strings.Contains\<close> / \<open>bytes.Contains\<close>: some position of \<open>s\<close> starts with \<open>sub\<close>.\<close>

fun Contains :: "string \<Rightarrow> string \<Rightarrow> bool" where
  "Contains [] sub = (sub = [])"
| "Contains (c # cs) sub = (HasPrefix (c # cs) sub \<or> Contains cs sub)"

text \<open>
  \<open>strings.Index\<close>: the first position where \<open>sep\<close> starts, if any.
\<close>

fun Index :: "string \<Rightarrow> string \<Rightarrow> nat option" where
  "Index [] sep = (if sep = [] then Some 0 else None)"
| "Index (c # cs) sep =
     (if HasPrefix (c # cs) sep then Some 0 else map_option Suc (Index cs sep))"

lemma Index_bound: "Index s sep = Some i \<Longrightarrow> i + length sep \<le> length s"
proof (induction s arbitrary: i)
  case Nil
  then show ?case by (simp split: if_splits)
next
  case (Cons c cs)
  show ?case
  proof (cases "HasPrefix (c # cs) sep")
    case True
    then have "length (take (length sep) (c # cs)) = length sep"
      unfolding HasPrefix_def by simp
    then have "length sep \<le> length (c # cs)"
      by (metis length_take min.cobounded1)
    with Cons.prems True show ?thesis by simp
  next
    case False
    with Cons.prems obtain j where "Index cs sep = Some j" "i = Suc j" by auto
    with Cons.IH show ?thesis by simp
  qed
qed

text \<open>
  \<open>strings.Split\<close> / \<open>bytes.Split\<close>: the pieces of \<open>s\<close> between the occurrences of
  \<open>sep\<close>, always at least one piece. (With an empty separator Go splits after each
  UTF-8 sequence; the sources never pass one.)
\<close>

function Split :: "string \<Rightarrow> string \<Rightarrow> string list" where
  "Split s sep =
     (if sep = [] then map (\<lambda>c. [c]) s
      else (case Index s sep of
              None \<Rightarrow> [s]
            | Some i \<Rightarrow> take i s # Split (drop (i + length sep) s) sep))"
  by pat_completeness auto
termination
proof (relation "measure (\<lambda>(s, sep). length s)")
  show "wf (measure (\<lambda>(s, sep). length s))" by simp
next
  fix s sep :: string and i :: nat
  assume "sep \<noteq> []" and "Index s sep = Some i"
  then have "i + length sep \<le> length s" and "0 < length sep"
    by (auto dest: Index_bound)
  then have "length s - (i + length sep) < length s"
    by linarith
  then show "((drop (i + length sep) s, sep), (s, sep)) \<in> measure (\<lambda>(s, sep). length s)"
    by simp
qed

declare Split.simps [simp del]

text \<open>The first piece, \<open>Split(s, sep)[0]\<close>: the text before the first separator.\<close>

definition SplitFirst :: "string \<Rightarrow> string \<Rightarrow> string" where
  "SplitFirst s sep = (case Split s sep of [] \<Rightarrow> [] | piece # rest \<Rightarrow> piece)"

text \<open>
  \<open>bytes.TrimSpace\<close>: leading and trailing white space, as \<open>unicode.IsSpace\<close> has it,
  is dropped. \<open>spaceRunes\<close> lists the UTF-8 encodings of the white-space code points:
  tab, newline, vertical tab, form feed, carriage return, space, U+0085, U+00A0,
  U+1680, U+2000 to U+200A, U+2028, U+2029, U+202F, U+205F and U+3000. A byte that
  does not start (or end) one of these encodings stops the trimming, as a rune that is
  not white space or an invalid encoding does in Go.
\<close>

definition spaceRunes :: "string list" where
  "spaceRunes =
     [[CHR 0x09], [CHR 0x0A], [CHR 0x0B], [CHR 0x0C], [CHR 0x0D], [CHR 0x20],
      [CHR 0xC2, CHR 0x85], [CHR 0xC2, CHR 0xA0], [CHR 0xE1, CHR 0x9A, CHR 0x80],
      [CHR 0xE2, CHR 0x80, CHR 0x80], [CHR 0xE2, CHR 0x80, CHR 0x81], [CHR 0xE2, CHR 0x80, CHR 0x82],
      [CHR 0xE2, CHR 0x80, CHR 0x83], [CHR 0xE2, CHR 0x80, CHR 0x84], [CHR 0xE2, CHR 0x80, CHR 0x85],
      [CHR 0xE2, CHR 0x80, CHR 0x86], [CHR 0xE2, CHR 0x80, CHR 0x87], [CHR 0xE2, CHR 0x80, CHR 0x88],
      [CHR 0xE2, CHR 0x80, CHR 0x89], [CHR 0xE2, CHR 0x80, CHR 0x8A], [CHR 0xE2, CHR 0x80, CHR 0xA8],
      [CHR 0xE2, CHR 0x80, CHR 0xA9], [CHR 0xE2, CHR 0x80, CHR 0xAF], [CHR 0xE2, CHR 0x81, CHR 0x9F],
      [CHR 0xE3, CHR 0x80, CHR 0x80]]"

text \<open>The width of the white-space rune that \<open>s\<close> starts with or ends with, 0 if none.\<close>

definition leadingSpace :: "string \<Rightarrow> nat" where
  "leadingSpace s = (case find (HasPrefix s) spaceRunes of None \<Rightarrow> 0 | Some r \<Rightarrow> length r)"

definition trailingSpace :: "string \<Rightarrow> nat" where
  "trailingSpace s = (case find (HasSuffix s) spaceRunes of None \<Rightarrow> 0 | Some r \<Rightarrow> length r)"

lemma leadingSpace_le: "leadingSpace s \<le> length s"
proof (cases "find (HasPrefix s) spaceRunes")
  case None
  then show ?thesis by (simp add: leadingSpace_def)
next
  case (Some r)
  then have "HasPrefix s r" by (auto simp: find_Some_iff)
  then have "length (take (length r) s) = length r" by (simp add: HasPrefix_def)
  then have "length r \<le> length s" by (metis length_take min.cobounded1)
  with Some show ?thesis by (simp add: leadingSpace_def)
qed

lemma trailingSpace_le: "trailingSpace s \<le> length s"
proof (cases "find (HasSuffix s) spaceRunes")
  case None
  then show ?thesis by (simp add: trailingSpace_def)
next
  case (Some r)
  then have "HasSuffix s r" by (auto simp: find_Some_iff)
  then have "length r \<le> length s" by (simp add: HasSuffix_def)
  with Some show ?thesis by (simp add: trailingSpace_def)
qed

function TrimLeftSpace :: "string \<Rightarrow> string" where
  "TrimLeftSpace s = (if leadingSpace s = 0 then s else TrimLeftSpace (drop (leadingSpace s) s))"
  by pat_completeness auto
termination
proof (relation "measure length")
  show "wf (measure length)" by simp
next
  fix s :: string
  assume "leadingSpace s \<noteq> 0"
  moreover have "leadingSpace s \<le> length s" by (rule leadingSpace_le)
  ultimately have "length s - leadingSpace s < length s" by linarith
  then show "(drop (leadingSpace s) s, s) \<in> measure length" by simp
qed

function TrimRightSpace :: "string \<Rightarrow> string" where
  "TrimRightSpace s =
     (if trailingSpace s = 0 then s else TrimRightSpace (take (length s - trailingSpace s) s))"
  by pat_completeness auto
termination
proof (relation "measure length")
  show "wf (measure length)" by simp
next
  fix s :: string
  assume "trailingSpace s \<noteq> 0"
  moreover have "trailingSpace s \<le> length s" by (rule trailingSpace_le)
  ultimately have "length s - trailingSpace s < length s" by linarith
  then show "(take (length s - trailingSpace s) s, s) \<in> measure length" by simp
qed

declare TrimLeftSpace.simps [simp del] TrimRightSpace.simps [simp del]

definition TrimSpace :: "string \<Rightarrow> string" where
  "TrimSpace s = TrimRightSpace (TrimLeftSpace s)"

text \<open>\<open>bytes.Replace(s, old, new, 1)\<close>: the first occurrence of \<open>old\<close> is replaced.\<close>

definition ReplaceFirst :: "string \<Rightarrow> string \<Rightarrow> string \<Rightarrow> string" where
  "ReplaceFirst s old new =
     (case Index s old of
        None \<Rightarrow> s
      | Some i \<Rightarrow> take i s @ new @ drop (i + length old) s)"

fun Join :: "string list \<Rightarrow> string \<Rightarrow> string" where
  "Join [] sep = []"
| "Join [x] sep = x"
| "Join (x # y # ys) sep = x @ sep @ Join (y # ys) sep"

definition newline :: string where
  "newline = [CHR 0x0A]"

text \<open>
  \<open>strconv.Itoa\<close> on a natural number, and \<open>fmt.Sprintf("%d", n)\<close> on an integer.
\<close>

definition digit :: "nat \<Rightarrow> char" where
  "digit d = ''0123456789'' ! d"

function Itoa :: "nat \<Rightarrow> string" where
  "Itoa n = (if n < 10 then [digit n] else Itoa (n div 10) @ [digit (n mod 10)])"
  by pat_completeness auto
termination
  by (relation "measure (\<lambda>n. n)") auto

declare Itoa.simps [simp del]

definition Sprintf_d :: "int \<Rightarrow> string" where
  "Sprintf_d i = (if i < 0 then ''-'' @ Itoa (nat (- i)) else Itoa (nat i))"

section \<open>float64\<close>

text \<open>
  A \<open>float64\<close> is an IEEE 754 binary64 value: \<open>Finite s m e\<close> is
  \<open>(-1)^s * m * 2^e\<close> with \<open>m\<close> never negative (so both zeros are there), \<open>Inf s\<close>
  an infinity and \<open>NaN\<close> a NaN. Arithmetic rounds the exact result to the nearest value with a 53-bit
  significand, ties to the even one, with gradual underflow below \<open>2^-1022\<close> and
  overflow to infinity from \<open>2^1024\<close>.
\<close>

datatype float64 = Finite bool int int | Inf bool | NaN

definition zero64 :: float64 where
  "zero64 = Finite False 0 0"

definition hundred64 :: float64 where
  "hundred64 = Finite False 100 0"

text \<open>The number of binary digits of \<open>n\<close>.\<close>

function bitlen :: "int \<Rightarrow> int" where
  "bitlen n = (if n \<le> 0 then 0 else 1 + bitlen (n div 2))"
  by pat_completeness auto
termination
  by (relation "measure nat") auto

declare bitlen.simps [simp del]

text \<open>\<open>N / D\<close> (both positive) rounded to the nearest integer, ties to the even one.\<close>

definition roundHalfEvenDiv :: "int \<Rightarrow> int \<Rightarrow> int" where
  "roundHalfEvenDiv N D =
     (let n = N div D; r = N mod D in
      if 2 * r < D then n else if D < 2 * r then n + 1 else if even n then n else n + 1)"

text \<open>
  The quotient \<open>num / den\<close> (with \<open>den > 0\<close>) rounded to binary64, with sign \<open>s\<close>.
  \<open>E\<close> is the exponent of the quotient (\<open>2^E \<le> num / den < 2^(E+1)\<close>), raised to
  \<open>-1022\<close> for subnormal results; the significand is the quotient in units of
  \<open>2^(E-52)\<close>, rounded.
\<close>

definition roundRat :: "bool \<Rightarrow> int \<Rightarrow> int \<Rightarrow> float64" where
  "roundRat s num den =
     (if num = 0 then Finite s 0 0
      else
       (let d = bitlen num - bitlen den;
            E = (if (if 0 \<le> d then den * 2 ^ nat d \<le> num else den \<le> num * 2 ^ nat (- d))
                 then d else d - 1);
            Ec = max E (- 1022);
            q = Ec - 52;
            N = (if 0 \<le> q then num else num * 2 ^ nat (- q));
            D = (if 0 \<le> q then den * 2 ^ nat q else den);
            n = roundHalfEvenDiv N D
        in if 1023 < Ec \<or> (Ec = 1023 \<and> 2 ^ 53 \<le> n) then Inf s else Finite s n q))"

text \<open>The Go operators \<open>/\<close> and \<open>*\<close> on \<open>float64\<close>, and the tests \<open>x > 0\<close> and \<open>x == 0\<close>.\<close>

fun fdiv :: "float64 \<Rightarrow> float64 \<Rightarrow> float64" where
  "fdiv NaN y = NaN"
| "fdiv x NaN = NaN"
| "fdiv (Inf s1) (Inf s2) = NaN"
| "fdiv (Inf s1) (Finite s2 m2 e2) = Inf (s1 \<noteq> s2)"
| "fdiv (Finite s1 m1 e1) (Inf s2) = Finite (s1 \<noteq> s2) 0 0"
| "fdiv (Finite s1 m1 e1) (Finite s2 m2 e2) =
     (if m2 = 0 then (if m1 = 0 then NaN else Inf (s1 \<noteq> s2))
      else if e2 \<le> e1 then roundRat (s1 \<noteq> s2) (m1 * 2 ^ nat (e1 - e2)) m2
      else roundRat (s1 \<noteq> s2) m1 (m2 * 2 ^ nat (e2 - e1)))"

fun fmul :: "float64 \<Rightarrow> float64 \<Rightarrow> float64" where
  "fmul NaN y = NaN"
| "fmul x NaN = NaN"
| "fmul (Inf s1) (Inf s2) = Inf (s1 \<noteq> s2)"
| "fmul (Inf s1) (Finite s2 m2 e2) = (if m2 = 0 then NaN else Inf (s1 \<noteq> s2))"
| "fmul (Finite s1 m1 e1) (Inf s2) = (if m1 = 0 then NaN else Inf (s1 \<noteq> s2))"
| "fmul (Finite s1 m1 e1) (Finite s2 m2 e2) =
     (if 0 \<le> e1 + e2 then roundRat (s1 \<noteq> s2) (m1 * m2 * 2 ^ nat (e1 + e2)) 1
      else roundRat (s1 \<noteq> s2) (m1 * m2) (2 ^ nat (- (e1 + e2))))"

fun gt0 :: "float64 \<Rightarrow> bool" where
  "gt0 (Finite s m e) = (\<not> s \<and> m \<noteq> 0)"
| "gt0 (Inf s) = (\<not> s)"
| "gt0 NaN = False"

fun eq0 :: "float64 \<Rightarrow> bool" where
  "eq0 (Finite s m e) = (m = 0)"
| "eq0 (Inf s) = False"
| "eq0 NaN = False"

text \<open>
  \<open>fmt.Sprintf("%.2f", x)\<close>: the sign, then the exact value of the magnitude rounded
  to two decimals (ties to even); \<open>NaN\<close>, \<open>+Inf\<close> and \<open>-Inf\<close> for the special values.
\<close>

fun Sprintf_2f :: "float64 \<Rightarrow> string" where
  "Sprintf_2f NaN = ''NaN''"
| "Sprintf_2f (Inf s) = (if s then ''-Inf'' else ''+Inf'')"
| "Sprintf_2f (Finite s m e) =
     (let h = (if 0 \<le> e then m * 2 ^ nat e * 100 else roundHalfEvenDiv (m * 100) (2 ^ nat (- e))) in
      (if s then ''-'' else []) @ Itoa (nat (h div 100)) @ ''.'' @
      [digit (nat (h mod 100 div 10)), digit (nat (h mod 10))])"

section \<open>Errors\<close>

text \<open>
  A Go \<open>error\<close> value is recorded by the call that built it together with its
  message: \<open>errors.New(msg)\<close>, \<open>fmt.Errorf(...)\<close> with the formatted message, or an
  error handed back by a library (\<open>strconv\<close>, \<open>yaml\<close>, NVML).
\<close>

datatype error = errors_New string | fmt_Errorf string | lib_error string

fun Error :: "error \<Rightarrow> string" where
  "Error (errors_New m) = m"
| "Error (fmt_Errorf m) = m"
| "Error (lib_error m) = m"

section \<open>nvidia-smi query: temperature and power records\<close>

text \<open>
  \<open>strconv.ParseFloat\<close> is a parameter \<open>pf\<close> of every getter: it returns the parsed
  value and the error, as in Go.
\<close>

type_synonym parseFloat = "string \<Rightarrow> float64 \<times> error option"

text \<open>
  \<open>strconv.ParseFloat\<close> on plain decimal literals (optional sign, digits, optional
  fraction): the decimal value rounded to binary64. Any other text is answered as a
  syntax error here; this instance is used on such literals only, to evaluate the
  getters on sample records.
\<close>

definition isDigit :: "char \<Rightarrow> bool" where
  "isDigit c = (48 \<le> (of_char c :: nat) \<and> (of_char c :: nat) \<le> 57)"

definition digitsVal :: "string \<Rightarrow> int" where
  "digitsVal ds = foldl (\<lambda>a c. 10 * a + ((of_char c :: int) - 48)) 0 ds"

definition ParseFloat_decimal :: parseFloat where
  "ParseFloat_decimal s =
     (let neg = (case s of c # r \<Rightarrow> c = CHR ''-'' | [] \<Rightarrow> False);
          body = (case s of c # r \<Rightarrow> (if c = CHR ''-'' \<or> c = CHR ''+'' then r else s) | [] \<Rightarrow> s);
          ip = takeWhile isDigit body;
          rest = dropWhile isDigit body;
          fp = (case rest of c # r \<Rightarrow> (if c = CHR ''.'' then r else []) | [] \<Rightarrow> []);
          ok = (case rest of c # r \<Rightarrow> c = CHR ''.'' \<and> list_all isDigit r | [] \<Rightarrow> True)
      in if ok \<and> (ip \<noteq> [] \<or> fp \<noteq> [])
         then (roundRat neg (digitsVal (ip @ fp)) (10 ^ length fp), None)
         else (zero64, Some (lib_error (''strconv.ParseFloat: parsing '' @ [CHR 0x22] @ s @ [CHR 0x22] @ '': invalid syntax''))))"

record SMIGPUTemperature =
  tm_ID :: string
  tm_Current :: string
  tm_Limit :: string
  tm_Shutdown :: string
  tm_ShutdownLimit :: string
  tm_Slowdown :: string
  tm_SlowdownLimit :: string
  tm_MaxOperatingLimit :: string
  tm_Target :: string
  tm_MemoryCurrent :: string
  tm_MemoryMaxOperatingLimit :: string

definition GetCurrentCelsius :: "parseFloat \<Rightarrow> SMIGPUTemperature \<Rightarrow> float64 \<times> error option" where
  "GetCurrentCelsius pf tm =
     (let v = tm_Current tm in
      if v = ''N/A'' then (zero64, Some (errors_New ''N/A''))
      else if HasSuffix v '' C'' then
        (case pf (TrimSuffix v '' C'') of
           (parsed, Some err) \<Rightarrow> (zero64, Some err)
         | (parsed, None) \<Rightarrow> (parsed, None))
      else (zero64, Some (fmt_Errorf (''invalid GPU current temperature: '' @ tm_Current tm @ '' (expected celsius)''))))"

definition GetLimitCelsius :: "parseFloat \<Rightarrow> SMIGPUTemperature \<Rightarrow> float64 \<times> error option" where
  "GetLimitCelsius pf tm =
     (let v = tm_Limit tm in
      if v = ''N/A'' then (zero64, Some (errors_New ''N/A''))
      else if HasSuffix v '' C'' then
        (case pf (TrimSuffix v '' C'') of
           (parsed, Some err) \<Rightarrow> (zero64, Some err)
         | (parsed, None) \<Rightarrow> (parsed, None))
      else (zero64, Some (fmt_Errorf (''invalid GPU t.limit temperature: '' @ tm_Limit tm @ '' (expected celsius)''))))"

definition GetShutdownCelsius :: "parseFloat \<Rightarrow> SMIGPUTemperature \<Rightarrow> float64 \<times> error option" where
  "GetShutdownCelsius pf tm =
     (let v = tm_Shutdown tm in
      if v = ''N/A'' then (zero64, Some (errors_New ''N/A''))
      else if HasSuffix v '' C'' then
        (case pf (TrimSuffix v '' C'') of
           (parsed, Some err) \<Rightarrow> (zero64, Some err)
         | (parsed, None) \<Rightarrow> (parsed, None))
      else (zero64, Some (fmt_Errorf (''invalid GPU t.shutdown temperature: '' @ tm_Limit tm @ '' (expected celsius)''))))"

definition GetShutdownLimitCelsius :: "parseFloat \<Rightarrow> SMIGPUTemperature \<Rightarrow> float64 \<times> error option" where
  "GetShutdownLimitCelsius pf tm =
     (let v = tm_ShutdownLimit tm in
      if v = ''N/A'' then (zero64, Some (errors_New ''N/A''))
      else if HasSuffix v '' C'' then
        (case pf (TrimSuffix v '' C'') of
           (parsed, Some err) \<Rightarrow> (zero64, Some err)
         | (parsed, None) \<Rightarrow> (parsed, None))
      else (zero64, Some (fmt_Errorf (''invalid GPU t.shutdown limit temperature: '' @ tm_Limit tm @ '' (expected celsius)''))))"

definition GetSlowdownCelsius :: "parseFloat \<Rightarrow> SMIGPUTemperature \<Rightarrow> float64 \<times> error option" where
  "GetSlowdownCelsius pf tm =
     (let v = tm_Slowdown tm in
      if v = ''N/A'' then (zero64, Some (errors_New ''N/A''))
      else if HasSuffix v '' C'' then
        (case pf (TrimSuffix v '' C'') of
           (parsed, Some err) \<Rightarrow> (zero64, Some err)
         | (parsed, None) \<Rightarrow> (parsed, None))
      else (zero64, Some (fmt_Errorf (''invalid GPU t.slowdown temperature: '' @ tm_Limit tm @ '' (expected celsius)''))))"

definition GetSlowdownLimitCelsius :: "parseFloat \<Rightarrow> SMIGPUTemperature \<Rightarrow> float64 \<times> error option" where
  "GetSlowdownLimitCelsius pf tm =
     (let v = tm_SlowdownLimit tm in
      if v = ''N/A'' then (zero64, Some (errors_New ''N/A''))
      else if HasSuffix v '' C'' then
        (case pf (TrimSuffix v '' C'') of
           (parsed, Some err) \<Rightarrow> (zero64, Some err)
         | (parsed, None) \<Rightarrow> (parsed, None))
      else (zero64, Some (fmt_Errorf (''invalid GPU t.slowdown limit temperature: '' @ tm_Limit tm @ '' (expected celsius)''))))"

record SMIGPUPowerReadings =
  pw_ID :: string
  pw_PowerDraw :: string
  pw_CurrentPowerLimit :: string
  pw_RequestedPowerLimit :: string
  pw_DefaultPowerLimit :: string
  pw_MinPowerLimit :: string
  pw_MaxPowerLimit :: string

definition GetPowerDrawW :: "parseFloat \<Rightarrow> SMIGPUPowerReadings \<Rightarrow> float64 \<times> error option" where
  "GetPowerDrawW pf g =
     (let v = pw_PowerDraw g in
      if v = ''N/A'' then (zero64, Some (errors_New ''N/A''))
      else if HasSuffix v '' W'' then
        (case pf (TrimSuffix v '' W'') of
           (parsed, Some err) \<Rightarrow> (zero64, Some err)
         | (parsed, None) \<Rightarrow> (parsed, None))
      else (zero64, Some (fmt_Errorf (''invalid power draw: '' @ pw_PowerDraw g @ '' (expected watts)''))))"

definition GetCurrentPowerLimitW :: "parseFloat \<Rightarrow> SMIGPUPowerReadings \<Rightarrow> float64 \<times> error option" where
  "GetCurrentPowerLimitW pf g =
     (let v = pw_CurrentPowerLimit g in
      if v = ''N/A'' then (zero64, Some (errors_New ''N/A''))
      else if HasSuffix v '' W'' then
        (case pf (TrimSuffix v '' W'') of
           (parsed, Some err) \<Rightarrow> (zero64, Some err)
         | (parsed, None) \<Rightarrow> (parsed, None))
      else (zero64, Some (fmt_Errorf (''invalid current power limit: '' @ pw_CurrentPowerLimit g @ '' (expected watts)''))))"

definition GetRequestedPowerLimitW :: "parseFloat \<Rightarrow> SMIGPUPowerReadings \<Rightarrow> float64 \<times> error option" where
  "GetRequestedPowerLimitW pf g =
     (let v = pw_RequestedPowerLimit g in
      if v = ''N/A'' then (zero64, Some (errors_New ''N/A''))
      else if HasSuffix v '' W'' then
        (case pf (TrimSuffix v '' W'') of
           (parsed, Some err) \<Rightarrow> (zero64, Some err)
         | (parsed, None) \<Rightarrow> (parsed, None))
      else (zero64, Some (fmt_Errorf (''invalid current power limit: '' @ pw_RequestedPowerLimit g @ '' (expected watts)''))))"

definition GetDefaultPowerLimitW :: "parseFloat \<Rightarrow> SMIGPUPowerReadings \<Rightarrow> float64 \<times> error option" where
  "GetDefaultPowerLimitW pf g =
     (let v = pw_DefaultPowerLimit g in
      if v = ''N/A'' then (zero64, Some (errors_New ''N/A''))
      else if HasSuffix v '' W'' then
        (case pf (TrimSuffix v '' W'') of
           (parsed, Some err) \<Rightarrow> (zero64, Some err)
         | (parsed, None) \<Rightarrow> (parsed, None))
      else (zero64, Some (fmt_Errorf (''invalid current power limit: '' @ pw_DefaultPowerLimit g @ '' (expected watts)''))))"

definition GetMinPowerLimitW :: "parseFloat \<Rightarrow> SMIGPUPowerReadings \<Rightarrow> float64 \<times> error option" where
  "GetMinPowerLimitW pf g =
     (let v = pw_MinPowerLimit g in
      if v = ''N/A'' then (zero64, Some (errors_New ''N/A''))
      else if HasSuffix v '' W'' then
        (case pf (TrimSuffix v '' W'') of
           (parsed, Some err) \<Rightarrow> (zero64, Some err)
         | (parsed, None) \<Rightarrow> (parsed, None))
      else (zero64, Some (fmt_Errorf (''invalid current power limit: '' @ pw_MinPowerLimit g @ '' (expected watts)''))))"

definition GetMaxPowerLimitW :: "parseFloat \<Rightarrow> SMIGPUPowerReadings \<Rightarrow> float64 \<times> error option" where
  "GetMaxPowerLimitW pf g =
     (let v = pw_MaxPowerLimit g in
      if v = ''N/A'' then (zero64, Some (errors_New ''N/A''))
      else if HasSuffix v '' W'' then
        (case pf (TrimSuffix v '' W'') of
           (parsed, Some err) \<Rightarrow> (zero64, Some err)
         | (parsed, None) \<Rightarrow> (parsed, None))
      else (zero64, Some (fmt_Errorf (''invalid current power limit: '' @ pw_MaxPowerLimit g @ '' (expected watts)''))))"

text \<open>
  The two ways a getter fails before any number is parsed: the absence error is
  \<open>errors.New("N/A")\<close>; a format error is built by \<open>fmt.Errorf\<close> and its message is
  never the text \<open>N/A\<close>.
\<close>

definition isAbsenceErr :: "float64 \<times> error option \<Rightarrow> bool" where
  "isAbsenceErr r = (r = (zero64, Some (errors_New ''N/A'')))"

definition isFormatErr :: "float64 \<times> error option \<Rightarrow> bool" where
  "isFormatErr r =
     (case r of
        (v, Some (fmt_Errorf m)) \<Rightarrow> v = zero64 \<and> m \<noteq> ''N/A'' \<and> HasPrefix m ''invalid ''
      | _ \<Rightarrow> False)"

text \<open>
  \<open>classifies get field suf\<close>: the getter \<open>get\<close>, reading \<open>field\<close>, answers the
  absence error on \<open>N/A\<close> and a format error on any other value without the suffix.
\<close>

definition classifies :: "('r \<Rightarrow> float64 \<times> error option) \<Rightarrow> ('r \<Rightarrow> string) \<Rightarrow> string \<Rightarrow> 'r \<Rightarrow> bool" where
  "classifies get field suf r =
     ((field r = ''N/A'' \<longrightarrow> isAbsenceErr (get r) \<and> \<not> isFormatErr (get r)) \<and>
      (field r \<noteq> ''N/A'' \<and> \<not> HasSuffix (field r) suf \<longrightarrow>
         isFormatErr (get r) \<and> \<not> isAbsenceErr (get r)))"

record ParsedTemperature =
  pt_ID :: string
  pt_CurrentHumanized :: string
  pt_CurrentCelsius :: string
  pt_LimitHumanized :: string
  pt_LimitCelsius :: string
  pt_UsedPercent :: string
  pt_ShutdownHumanized :: string
  pt_ShutdownLimit :: string
  pt_ShutdownCelsius :: string
  pt_SlowdownHumanized :: string
  pt_SlowdownLimit :: string
  pt_SlowdownCelsius :: string
  pt_MaxOperatingLimit :: string
  pt_Target :: string
  pt_MemoryCurrent :: string
  pt_MemoryMaxOperatingLimit :: string

text \<open>The zero value \<open>ParsedTemperature{}\<close>.\<close>

definition ParsedTemperature_zero :: ParsedTemperature where
  "ParsedTemperature_zero =
     \<lparr> pt_ID = [], pt_CurrentHumanized = [], pt_CurrentCelsius = [],
       pt_LimitHumanized = [], pt_LimitCelsius = [], pt_UsedPercent = [],
       pt_ShutdownHumanized = [], pt_ShutdownLimit = [], pt_ShutdownCelsius = [],
       pt_SlowdownHumanized = [], pt_SlowdownLimit = [], pt_SlowdownCelsius = [],
       pt_MaxOperatingLimit = [], pt_Target = [], pt_MemoryCurrent = [],
       pt_MemoryMaxOperatingLimit = [] \<rparr>"

text \<open>
  \<open>SMIGPUTemperature.Parse\<close>. The local variables \<open>shutdownLimit\<close>, \<open>slowdown\<close>
  and \<open>limit\<close> keep the value of the last getter call, which is 0 when it failed.
\<close>

definition SMIGPUTemperature_Parse :: "parseFloat \<Rightarrow> SMIGPUTemperature \<Rightarrow> ParsedTemperature \<times> error option" where
  "SMIGPUTemperature_Parse pf tm =
     (case GetCurrentCelsius pf tm of
        (cur, Some err) \<Rightarrow> (ParsedTemperature_zero, Some err)
      | (cur, None) \<Rightarrow>
         (let temp = ParsedTemperature_zero
                \<lparr> pt_ID := tm_ID tm, pt_CurrentHumanized := tm_Current tm,
                  pt_CurrentCelsius := Sprintf_2f cur,
                  pt_ShutdownHumanized := tm_Shutdown tm, pt_ShutdownLimit := tm_ShutdownLimit tm \<rparr>;
              (shutdownLimit, err1) =
                (case GetShutdownCelsius pf tm of
                   (v, Some e) \<Rightarrow> GetShutdownLimitCelsius pf tm
                 | (v, None) \<Rightarrow> (v, None));
              temp = (if err1 = None then temp \<lparr> pt_ShutdownCelsius := Sprintf_2f shutdownLimit \<rparr> else temp);
              temp = temp \<lparr> pt_SlowdownHumanized := tm_Slowdown tm, pt_SlowdownLimit := tm_SlowdownLimit tm \<rparr>;
              (slowdown, err2) =
                (case GetSlowdownCelsius pf tm of
                   (v, Some e) \<Rightarrow> GetSlowdownLimitCelsius pf tm
                 | (v, None) \<Rightarrow> (v, None));
              temp = (if err2 = None then temp \<lparr> pt_SlowdownCelsius := Sprintf_2f slowdown \<rparr> else temp);
              temp = temp \<lparr> pt_LimitHumanized := tm_Limit tm \<rparr>;
              (limit0, err3) = GetLimitCelsius pf tm;
              temp = (if err3 = None then temp \<lparr> pt_LimitCelsius := Sprintf_2f limit0 \<rparr> else temp);
              limit1 = (if err3 = None then limit0
                        else if gt0 shutdownLimit then shutdownLimit else limit0);
              limit = (if err3 = None then limit1
                       else if eq0 limit1 \<and> gt0 slowdown then slowdown else limit1);
              temp = temp \<lparr> pt_UsedPercent := ''0.0'' \<rparr>;
              temp = (if gt0 limit
                      then temp \<lparr> pt_UsedPercent := Sprintf_2f (fmul (fdiv cur limit) hundred64) \<rparr>
                      else temp);
              temp = temp \<lparr> pt_MaxOperatingLimit := tm_MaxOperatingLimit tm, pt_Target := tm_Target tm,
                            pt_MemoryCurrent := tm_MemoryCurrent tm,
                            pt_MemoryMaxOperatingLimit := tm_MemoryMaxOperatingLimit tm \<rparr>
          in (temp, None)))"

text \<open>
  The values \<open>Parse\<close> binds to \<open>shutdownLimit\<close> and \<open>slowdown\<close>: the older field
  first, the \<open>T.Limit\<close> field when the older one fails.
\<close>

definition shutdownLimitOf :: "parseFloat \<Rightarrow> SMIGPUTemperature \<Rightarrow> float64 \<times> error option" where
  "shutdownLimitOf pf tm =
     (case GetShutdownCelsius pf tm of
        (v, Some e) \<Rightarrow> GetShutdownLimitCelsius pf tm
      | (v, None) \<Rightarrow> (v, None))"

definition slowdownOf :: "parseFloat \<Rightarrow> SMIGPUTemperature \<Rightarrow> float64 \<times> error option" where
  "slowdownOf pf tm =
     (case GetSlowdownCelsius pf tm of
        (v, Some e) \<Rightarrow> GetSlowdownLimitCelsius pf tm
      | (v, None) \<Rightarrow> (v, None))"

text \<open>
  The limit \<open>Parse\<close> divides by: the explicit limit when its getter succeeds (whatever
  its value); otherwise the shutdown value when it is greater than zero, otherwise the
  slowdown value when it is greater than zero, otherwise the zero that the failed
  getter returned.
\<close>

definition resolvedLimit :: "parseFloat \<Rightarrow> SMIGPUTemperature \<Rightarrow> float64" where
  "resolvedLimit pf tm =
     (if snd (GetLimitCelsius pf tm) = None then fst (GetLimitCelsius pf tm)
      else if gt0 (fst (shutdownLimitOf pf tm)) then fst (shutdownLimitOf pf tm)
      else if gt0 (fst (slowdownOf pf tm)) then fst (slowdownOf pf tm)
      else zero64)"

text \<open>
  Limit resolution as the specification words it: the first of explicit limit,
  shutdown limit, slowdown limit that is available (its getter succeeds) wins; the
  used-percent is \<open>current / limit * 100\<close> with two decimals when that limit is greater
  than zero and \<open>0.0\<close> otherwise.
\<close>

definition spec_available :: "float64 \<times> error option \<Rightarrow> float64 option" where
  "spec_available r = (case r of (v, None) \<Rightarrow> Some v | (v, Some e) \<Rightarrow> None)"

definition spec_resolvedLimit :: "parseFloat \<Rightarrow> SMIGPUTemperature \<Rightarrow> float64 option" where
  "spec_resolvedLimit pf tm =
     (case spec_available (GetLimitCelsius pf tm) of
        Some l \<Rightarrow> Some l
      | None \<Rightarrow>
         (case spec_available (shutdownLimitOf pf tm) of
            Some l \<Rightarrow> Some l
          | None \<Rightarrow> spec_available (slowdownOf pf tm)))"

definition spec_UsedPercent :: "parseFloat \<Rightarrow> SMIGPUTemperature \<Rightarrow> string" where
  "spec_UsedPercent pf tm =
     (case spec_resolvedLimit pf tm of
        Some l \<Rightarrow> (if gt0 l
                   then Sprintf_2f (fmul (fdiv (fst (GetCurrentCelsius pf tm)) l) hundred64)
                   else ''0.0'')
      | None \<Rightarrow> ''0.0'')"

text \<open>Sample temperature records.\<close>

definition tm_sample :: "string \<Rightarrow> string \<Rightarrow> string \<Rightarrow> string \<Rightarrow> string \<Rightarrow> string \<Rightarrow> SMIGPUTemperature" where
  "tm_sample c l s sl w wl =
     \<lparr> tm_ID = ''GPU 00000000:53:00.0'', tm_Current = c, tm_Limit = l,
       tm_Shutdown = s, tm_ShutdownLimit = sl, tm_Slowdown = w, tm_SlowdownLimit = wl,
       tm_MaxOperatingLimit = ''N/A'', tm_Target = ''N/A'', tm_MemoryCurrent = ''N/A'',
       tm_MemoryMaxOperatingLimit = ''N/A'' \<rparr>"

definition pw_sample :: "string \<Rightarrow> string \<Rightarrow> string \<Rightarrow> SMIGPUPowerReadings" where
  "pw_sample draw cur req =
     \<lparr> pw_ID = ''GPU 00000000:53:00.0'', pw_PowerDraw = draw, pw_CurrentPowerLimit = cur,
       pw_RequestedPowerLimit = req, pw_DefaultPowerLimit = ''700.00 W'',
       pw_MinPowerLimit = ''200.00 W'', pw_MaxPowerLimit = ''700.00 W'' \<rparr>"

section \<open>nvidia-smi query: the per-GPU record and its anomaly scans\<close>

text \<open>
  A Go slice result is \<open>None\<close> for \<open>nil\<close> and \<open>Some xs\<close> for a non-nil slice, so that an
  empty non-nil slice \<open>Some []\<close> differs from \<open>nil\<close>. A pointer field is an option.
\<close>

fun len :: "'a list option \<Rightarrow> nat" where
  "len None = 0"
| "len (Some xs) = length xs"

fun elems :: "'a list option \<Rightarrow> 'a list" where
  "elems None = []"
| "elems (Some xs) = xs"

record SMIGPUResetStatus =
  rs_ResetRequired :: string
  rs_DrainAndResetRecommended :: string

record SMIClockEventReasons =
  ce_SWPowerCap :: string
  ce_SWThermalSlowdown :: string
  ce_HWSlowdown :: string
  ce_HWThermalSlowdown :: string
  ce_HWPowerBrakeSlowdown :: string

record SMIECCErrorAggregate =
  ea_DRAMCorrectable :: string
  ea_DRAMUncorrectable :: string
  ea_SRAMCorrectable :: string
  ea_SRAMThresholdExceeded :: string
  ea_SRAMUncorrectable :: string
  ea_SRAMUncorrectableParity :: string
  ea_SRAMUncorrectableSECDED :: string

record SMIECCErrorAggregateUncorrectableSRAMSources =
  es_SRAML2 :: string
  es_SRAMMicrocontroller :: string
  es_SRAMOther :: string
  es_SRAMPCIE :: string
  es_SRAMSM :: string

record SMIECCErrorVolatile =
  ev_DRAMCorrectable :: string
  ev_DRAMUncorrectable :: string
  ev_SRAMCorrectable :: string
  ev_SRAMUncorrectable :: string
  ev_SRAMUncorrectableParity :: string
  ev_SRAMUncorrectableSECDED :: string

record SMIECCErrors =
  ecc_ID :: string
  ecc_Aggregate :: "SMIECCErrorAggregate option"
  ecc_AggregateUncorrectableSRAMSources :: "SMIECCErrorAggregateUncorrectableSRAMSources option"
  ecc_Volatile :: "SMIECCErrorVolatile option"

record SMIProcesses =
  pr_GPUInstanceID :: string
  pr_ComputeInstanceID :: string
  pr_ProcessID :: int
  pr_ProcessType :: string
  pr_ProcessName :: string
  pr_ProcessUsedGPUMemory :: string

record SMIFBMemoryUsage =
  fb_ID :: string
  fb_Total :: string
  fb_Reserved :: string
  fb_Used :: string
  fb_Free :: string

record NvidiaSMIGPU =
  gpu_ID :: string
  gpu_ProductName :: string
  gpu_ProductBrand :: string
  gpu_ProductArchitecture :: string
  gpu_PersistenceMode :: string
  gpu_AddressingMode :: string
  gpu_GPUResetStatus :: "SMIGPUResetStatus option"
  gpu_ClockEventReasons :: "SMIClockEventReasons option"
  gpu_ECCErrors :: "SMIECCErrors option"
  gpu_Temperature :: "SMIGPUTemperature option"
  gpu_GPUPowerReadings :: "SMIGPUPowerReadings option"
  gpu_Processes :: "SMIProcesses option"
  gpu_FBMemoryUsage :: "SMIFBMemoryUsage option"
  gpu_FanSpeed :: string

text \<open>\<open>append(errs, msg)\<close> when the condition holds.\<close>

definition appendIf :: "bool \<Rightarrow> string \<Rightarrow> string list \<Rightarrow> string list" where
  "appendIf b msg errs = (if b then errs @ [msg] else errs)"

definition FindVolatileUncorrectableErrs :: "SMIECCErrors \<Rightarrow> string list option" where
  "FindVolatileUncorrectableErrs eccErrs =
     (let errs = [];
          errs = (case ecc_Volatile eccErrs of
                    None \<Rightarrow> errs
                  | Some vol \<Rightarrow>
                     (let errs = appendIf (ev_DRAMUncorrectable vol \<noteq> [] \<and> ev_DRAMUncorrectable vol \<noteq> ''0'')
                                   (''GPU '' @ ecc_ID eccErrs @ '': Volatile DRAMUncorrectable: '' @ ev_DRAMUncorrectable vol) errs;
                          errs = appendIf (ev_SRAMUncorrectable vol \<noteq> [] \<and> ev_SRAMUncorrectable vol \<noteq> ''0'')
                                   (''GPU '' @ ecc_ID eccErrs @ '': Volatile SRAMUncorrectable: '' @ ev_SRAMUncorrectable vol) errs;
                          errs = appendIf (ev_SRAMUncorrectableParity vol \<noteq> [] \<and> ev_SRAMUncorrectableParity vol \<noteq> ''0'')
                                   (''GPU '' @ ecc_ID eccErrs @ '': Volatile SRAMUncorrectableParity: '' @ ev_SRAMUncorrectable vol) errs;
                          errs = appendIf (ev_SRAMUncorrectableSECDED vol \<noteq> [] \<and> ev_SRAMUncorrectableSECDED vol \<noteq> ''0'')
                                   (''GPU '' @ ecc_ID eccErrs @ '': Volatile SRAMUncorrectableSECDED: '' @ ev_SRAMUncorrectable vol) errs
                      in errs))
      in if length errs = 0 then None else Some errs)"

definition FindAddressingModeErr :: "NvidiaSMIGPU \<Rightarrow> error option" where
  "FindAddressingModeErr g =
     (if Contains (gpu_AddressingMode g) ''Unknown Error''
      then Some (fmt_Errorf (gpu_ID g @ '': AddressingMode '' @ gpu_AddressingMode g))
      else None)"

definition FindErrs :: "NvidiaSMIGPU \<Rightarrow> string list option" where
  "FindErrs g =
     (let errs = [];
          errs = (case gpu_Temperature g of
                    None \<Rightarrow> errs
                  | Some t \<Rightarrow>
                     (let errs = appendIf (Contains (tm_Current t) ''Unknown Error'')
                                   (gpu_ID g @ '': Temperature.Current Unknown Error'') errs;
                          errs = appendIf (Contains (tm_Limit t) ''Unknown Error'')
                                   (gpu_ID g @ '': Temperature.Limit Unknown Error'') errs;
                          errs = appendIf (Contains (tm_ShutdownLimit t) ''Unknown Error'')
                                   (gpu_ID g @ '': Temperature.ShutdownLimit Unknown Error'') errs;
                          errs = appendIf (Contains (tm_SlowdownLimit t) ''Unknown Error'')
                                   (gpu_ID g @ '': Temperature.SlowdownLimit Unknown Error'') errs;
                          errs = appendIf (Contains (tm_MaxOperatingLimit t) ''Unknown Error'')
                                   (gpu_ID g @ '': Temperature.MaxOperatingLimit Unknown Error'') errs;
                          errs = appendIf (Contains (tm_Target t) ''Unknown Error'')
                                   (gpu_ID g @ '': Temperature.Target Unknown Error'') errs;
                          errs = appendIf (Contains (tm_MemoryCurrent t) ''Unknown Error'')
                                   (gpu_ID g @ '': Temperature.MemoryCurrent Unknown Error'') errs;
                          errs = appendIf (Contains (tm_MemoryMaxOperatingLimit t) ''Unknown Error'')
                                   (gpu_ID g @ '': Temperature.MemoryMaxOperatingLimit Unknown Error'') errs
                      in errs));
          errs = (case FindAddressingModeErr g of
                    Some err \<Rightarrow> errs @ [Error err]
                  | None \<Rightarrow> errs);
          errs = appendIf (Contains (gpu_FanSpeed g) ''Unknown Error'')
                   (gpu_ID g @ '': FanSpeed Unknown Error'') errs
      in if length errs = 0 then None else Some errs)"

definition ClockEventsActive :: string where
  "ClockEventsActive = ''Active''"

definition ClockEventsNotActive :: string where
  "ClockEventsNotActive = ''Not Active''"

definition FindHWSlowdownErrs :: "NvidiaSMIGPU \<Rightarrow> string list option" where
  "FindHWSlowdownErrs g =
     (let errs = [];
          errs = (case gpu_ClockEventReasons g of
                    None \<Rightarrow> errs
                  | Some r \<Rightarrow>
                     (if ce_HWSlowdown r = ClockEventsActive
                      then (let errs = appendIf (ce_HWThermalSlowdown r = ClockEventsActive)
                                         (gpu_ID g @ '': ClockEventReasons.HWSlowdown.ThermalSlowdown '' @ ClockEventsActive) errs;
                                errs = appendIf (ce_HWPowerBrakeSlowdown r = ClockEventsActive)
                                         (gpu_ID g @ '': ClockEventReasons.HWSlowdown.PowerBrakeSlowdown '' @ ClockEventsActive) errs
                            in errs)
                      else errs))
      in if length errs = 0 then None else Some errs)"

section \<open>nvidia-smi query: the document and its decoder\<close>

record SMIOutput =
  out_Timestamp :: string
  out_DriverVersion :: string
  out_CUDAVersion :: string
  out_AttachedGPUs :: int
  out_GPUs :: "NvidiaSMIGPU list"
  out_Raw :: string
  out_Summary :: string
  out_SummaryFailure :: "error option"

record rawSMIQueryOutput =
  raw_Timestamp :: string
  raw_DriverVersion :: string
  raw_CUDAVersion :: string
  raw_AttachedGPUs :: int
  raw_GPU0 :: "NvidiaSMIGPU option"
  raw_GPU1 :: "NvidiaSMIGPU option"
  raw_GPU2 :: "NvidiaSMIGPU option"
  raw_GPU3 :: "NvidiaSMIGPU option"
  raw_GPU4 :: "NvidiaSMIGPU option"
  raw_GPU5 :: "NvidiaSMIGPU option"
  raw_GPU6 :: "NvidiaSMIGPU option"
  raw_GPU7 :: "NvidiaSMIGPU option"

record smiQueryOutputFallback =
  fbk_Timestamp :: string
  fbk_DriverVersion :: string
  fbk_CUDAVersion :: string
  fbk_AttachedGPUs :: int

text \<open>
  \<open>yaml.Unmarshal\<close> (package \<open>sigs.k8s.io/yaml\<close>) is a parameter of the decoder, once
  for each target type: it answers the decoded value or the error.
\<close>

type_synonym unmarshalRaw = "string \<Rightarrow> error + rawSMIQueryOutput"
type_synonym unmarshalFallback = "string \<Rightarrow> error + smiQueryOutputFallback"

definition getKey :: "string \<Rightarrow> string" where
  "getKey line = TrimSpace (SplitFirst line '':'')"

text \<open>
  The variables of the line loop of \<open>ParseSMIQueryOutput\<close> that live across
  iterations.
\<close>

record lineLoop =
  processedLines :: "string list"
  lastIndent :: nat
  gpuCursor :: nat
  prevGPUID :: string

text \<open>One iteration of the loop over \<open>splits\<close>.\<close>

definition rewriteLine :: "lineLoop \<Rightarrow> string \<Rightarrow> lineLoop" where
  "rewriteLine st currentLine =
     (if length currentLine = 0 then st
      else if Contains currentLine ''==='' \<or> Contains currentLine ''NVSMI LOG'' then st
      else
       (let lastLine = (if length (processedLines st) > 0 then last (processedLines st) else []);
            indentLevel = length currentLine - length (TrimSpace currentLine);
            gpuIDLine = (if prevGPUID st \<noteq> []
                         then replicate indentLevel (CHR 0x20) @ ''ID: '' @ prevGPUID st else []);
            prevGPUID1 = (if prevGPUID st \<noteq> [] then [] else prevGPUID st);
            lastKey = getKey lastLine;
            processKey = (HasPrefix lastKey ''Process ID'' \<or> HasPrefix lastKey ''Process Type'' \<or>
                          HasPrefix lastKey ''Process Name'');
            rewritten =
              (if HasPrefix currentLine ''GPU 00000''
                 then ''GPU'' @ Itoa (gpuCursor st) @ '':''
               else if \<not> HasSuffix currentLine '':'' \<and> \<not> Contains currentLine '':''
                 then currentLine @ '':''
               else if HasSuffix (TrimSpace currentLine) ''None''
                 then ReplaceFirst currentLine ''None'' ''null''
               else if HasPrefix lastKey ''HW Slowdown'' \<or> HasPrefix lastKey ''HW Thermal Slowdown'' \<or> processKey
                 then replicate (lastIndent st) (CHR 0x20) @ (if processKey then ''Process '' else []) @
                      TrimSpace currentLine
               else currentLine);
            isGPULine = HasPrefix currentLine ''GPU 00000'';
            lines1 = (if gpuIDLine \<noteq> [] then processedLines st @ [gpuIDLine] else processedLines st)
        in \<lparr> processedLines = lines1 @ [rewritten],
             lastIndent = length rewritten - length (TrimSpace rewritten),
             gpuCursor = (if isGPULine then gpuCursor st + 1 else gpuCursor st),
             prevGPUID = (if isGPULine then currentLine else prevGPUID1) \<rparr>))"

definition rewriteLines :: "string \<Rightarrow> string" where
  "rewriteLines b =
     Join (processedLines
             (foldl rewriteLine
                \<lparr> processedLines = [], lastIndent = 0, gpuCursor = 0, prevGPUID = [] \<rparr>
                (Split b newline)))
          newline"

text \<open>The loop that writes the device identifier into the sub-records that carry one.\<close>

definition propagateID :: "NvidiaSMIGPU \<Rightarrow> NvidiaSMIGPU" where
  "propagateID g =
     g \<lparr> gpu_ECCErrors := map_option (\<lambda>e. e \<lparr> ecc_ID := gpu_ID g \<rparr>) (gpu_ECCErrors g),
         gpu_Temperature := map_option (\<lambda>t. t \<lparr> tm_ID := gpu_ID g \<rparr>) (gpu_Temperature g),
         gpu_GPUPowerReadings := map_option (\<lambda>p. p \<lparr> pw_ID := gpu_ID g \<rparr>) (gpu_GPUPowerReadings g),
         gpu_FBMemoryUsage := map_option (\<lambda>f. f \<lparr> fb_ID := gpu_ID g \<rparr>) (gpu_FBMemoryUsage g) \<rparr>"

text \<open>
  \<open>ParseSMIQueryOutput\<close>: the returned pair is the document pointer (\<open>None\<close> for
  \<open>nil\<close>) and the error (\<open>None\<close> for \<open>nil\<close>).
\<close>

definition ParseSMIQueryOutput ::
  "unmarshalRaw \<Rightarrow> unmarshalFallback \<Rightarrow> string \<Rightarrow> SMIOutput option \<times> error option" where
  "ParseSMIQueryOutput yamlRaw yamlFallback b =
     (let processedOutput = rewriteLines b in
      case yamlRaw processedOutput of
        Inl err \<Rightarrow>
          (let newOutput = SplitFirst processedOutput (newline @ ''GPU'') in
           case yamlFallback newOutput of
             Inl rerr \<Rightarrow> (None, Some rerr)
           | Inr fallback \<Rightarrow>
               (Some \<lparr> out_Timestamp = fbk_Timestamp fallback,
                       out_DriverVersion = fbk_DriverVersion fallback,
                       out_CUDAVersion = fbk_CUDAVersion fallback,
                       out_AttachedGPUs = fbk_AttachedGPUs fallback,
                       out_GPUs = [], out_Raw = [], out_Summary = [], out_SummaryFailure = None \<rparr>,
                Some err))
      | Inr raw \<Rightarrow>
          (let gpuFields = [raw_GPU0 raw, raw_GPU1 raw, raw_GPU2 raw, raw_GPU3 raw,
                            raw_GPU4 raw, raw_GPU5 raw, raw_GPU6 raw, raw_GPU7 raw];
               gpus = concat (map (\<lambda>gpu. case gpu of None \<Rightarrow> [] | Some g \<Rightarrow> [g]) gpuFields)
           in (Some \<lparr> out_Timestamp = raw_Timestamp raw,
                      out_DriverVersion = raw_DriverVersion raw,
                      out_CUDAVersion = raw_CUDAVersion raw,
                      out_AttachedGPUs = raw_AttachedGPUs raw,
                      out_GPUs = map propagateID gpus,
                      out_Raw = b, out_Summary = [], out_SummaryFailure = None \<rparr>,
               None)))"

definition FindSummaryErr :: "string \<Rightarrow> string list" where
  "FindSummaryErr s =
     (let lines = Split s newline in
      foldl (\<lambda>errs i.
               (let line = lines ! i in
                if \<not> Contains line ''ERR!'' then errs
                else if i > 0 then errs @ [lines ! (i - 1) @ newline @ line]
                else errs @ [line]))
            [] [0 ..< length lines])"

definition FindGPUErrs :: "SMIOutput \<Rightarrow> string list option" where
  "FindGPUErrs out =
     (let rs = foldl (\<lambda>rs g. (let errs = FindErrs g in
                                if len errs = 0 then rs else rs @ elems errs))
                     [] (out_GPUs out);
          rs = (case out_SummaryFailure out of
                  Some failure \<Rightarrow> rs @ [Error failure]
                | None \<Rightarrow> (let serrs = FindSummaryErr (out_Summary out) in
                            if length serrs > 0 then rs @ serrs else rs));
          rs = appendIf (out_AttachedGPUs out \<noteq> int (length (out_GPUs out)))
                 (''AttachedGPUs '' @ Sprintf_d (out_AttachedGPUs out) @ '' != GPUs '' @
                  Sprintf_d (int (length (out_GPUs out)))) rs
      in if length rs = 0 then None else Some rs)"

definition SMIOutput_FindHWSlowdownErrs :: "SMIOutput \<Rightarrow> string list option" where
  "SMIOutput_FindHWSlowdownErrs out =
     (let errs = foldl (\<lambda>errs g.
                          (if gpu_ClockEventReasons g = None then errs
                           else (let herrs = FindHWSlowdownErrs g in
                                 if len herrs = 0 then errs else errs @ elems herrs)))
                       [] (out_GPUs out)
      in if length errs = 0 then None else Some errs)"

text \<open>
  Sample query outputs. In \<open>smi_drift\<close> the device block has the scalar
  \<open>Temperature : N/A\<close> where the schema has a nested block; in \<open>smi_badcount\<close> the
  device count of the header is not a number.
\<close>

definition smi_drift :: string where
  "smi_drift = Join
     [''==============NVSMI LOG=============='',
      [],
      ''Timestamp : Sun Nov  1 12:00:00 2026'',
      ''Driver Version : 535.129.03'',
      ''CUDA Version : 12.2'',
      [],
      ''Attached GPUs : 1'',
      ''GPU 00000000:53:00.0'',
      ''    Temperature : N/A''] newline"

definition smi_badcount :: string where
  "smi_badcount = Join
     [''Driver Version : 535.129.03'',
      ''CUDA Version : 12.2'',
      ''Attached GPUs : N/A'',
      ''GPU 00000000:53:00.0'',
      ''    Fan Speed : N/A''] newline"

text \<open>The two samples after the line rewriting, and their parts before the first device block.\<close>

definition smi_drift_header :: string where
  "smi_drift_header = Join
     [''Timestamp : Sun Nov  1 12:00:00 2026'',
      ''Driver Version : 535.129.03'',
      ''CUDA Version : 12.2'',
      ''Attached GPUs : 1''] newline"

definition smi_drift_rewritten :: string where
  "smi_drift_rewritten = Join
     [smi_drift_header,
      ''GPU0:'',
      ''    ID: GPU 00000000:53:00.0'',
      ''    Temperature : N/A''] newline"

definition smi_badcount_header :: string where
  "smi_badcount_header = Join
     [''Driver Version : 535.129.03'',
      ''CUDA Version : 12.2'',
      ''Attached GPUs : N/A''] newline"

definition smi_badcount_rewritten :: string where
  "smi_badcount_rewritten = Join
     [smi_badcount_header,
      ''GPU0:'',
      ''    ID: GPU 00000000:53:00.0'',
      ''    Fan Speed : N/A''] newline"

text \<open>
  What \<open>yaml.Unmarshal\<close> (YAML to JSON, then \<open>encoding/json\<close> into the target struct)
  answers at these four texts, for use as the decoders of \<open>ParseSMIQueryOutput\<close> on the
  samples. All four are well-formed YAML mappings.
  \<^item> \<open>smi_drift_rewritten\<close> into \<open>rawSMIQueryOutput\<close>: \<open>GPU0.Temperature\<close> is the string
    \<open>N/A\<close> where the field is a \<open>*SMIGPUTemperature\<close>, so the decode fails with a JSON
    type error.
  \<^item> \<open>smi_drift_header\<close> into \<open>smiQueryOutputFallback\<close>: the four fields decode.
  \<^item> \<open>smi_badcount_rewritten\<close> into \<open>rawSMIQueryOutput\<close> and \<open>smi_badcount_header\<close> into
    \<open>smiQueryOutputFallback\<close>: \<open>Attached GPUs\<close> is the string \<open>N/A\<close> where the field is
    an \<open>int\<close>, so both decodes fail with a JSON type error, each naming its own struct.
  The tables say nothing about any other text: there they answer a placeholder error.
  The error texts are shortened.
\<close>

definition yamlRaw_samples :: unmarshalRaw where
  "yamlRaw_samples text =
     (if text = smi_drift_rewritten
      then Inl (lib_error ''json: cannot unmarshal string into Go struct field NvidiaSMIGPU.GPU0.Temperature'')
      else if text = smi_badcount_rewritten
      then Inl (lib_error ''json: cannot unmarshal string into Go struct field rawSMIQueryOutput.Attached GPUs of type int'')
      else Inl (lib_error ''no sample''))"

definition yamlFallback_samples :: unmarshalFallback where
  "yamlFallback_samples text =
     (if text = smi_drift_header
      then Inr \<lparr> fbk_Timestamp = ''Sun Nov  1 12:00:00 2026'', fbk_DriverVersion = ''535.129.03'',
                 fbk_CUDAVersion = ''12.2'', fbk_AttachedGPUs = 1 \<rparr>
      else if text = smi_badcount_header
      then Inl (lib_error ''json: cannot unmarshal string into Go struct field smiQueryOutputFallback.Attached GPUs of type int'')
      else Inl (lib_error ''no sample''))"

text \<open>Sample device records.\<close>

definition ce_sample :: "string \<Rightarrow> string \<Rightarrow> string \<Rightarrow> SMIClockEventReasons" where
  "ce_sample hw thermal brake =
     \<lparr> ce_SWPowerCap = ''Not Active'', ce_SWThermalSlowdown = ''Not Active'',
       ce_HWSlowdown = hw, ce_HWThermalSlowdown = thermal, ce_HWPowerBrakeSlowdown = brake \<rparr>"

definition gpu_sample :: "SMIClockEventReasons option \<Rightarrow> SMIGPUTemperature option \<Rightarrow> NvidiaSMIGPU" where
  "gpu_sample reasons temperature =
     \<lparr> gpu_ID = ''GPU 00000000:53:00.0'', gpu_ProductName = ''NVIDIA H100 80GB HBM3'',
       gpu_ProductBrand = ''NVIDIA'', gpu_ProductArchitecture = ''Hopper'',
       gpu_PersistenceMode = ''Enabled'', gpu_AddressingMode = ''None'',
       gpu_GPUResetStatus = None, gpu_ClockEventReasons = reasons, gpu_ECCErrors = None,
       gpu_Temperature = temperature, gpu_GPUPowerReadings = None, gpu_Processes = None,
       gpu_FBMemoryUsage = None, gpu_FanSpeed = ''N/A'' \<rparr>"

definition ecc_sample :: "string \<Rightarrow> SMIECCErrors" where
  "ecc_sample dram =
     \<lparr> ecc_ID = ''GPU 00000000:53:00.0'', ecc_Aggregate = None,
       ecc_AggregateUncorrectableSRAMSources = None,
       ecc_Volatile = Some \<lparr> ev_DRAMCorrectable = ''0'', ev_DRAMUncorrectable = dram,
                              ev_SRAMCorrectable = ''0'', ev_SRAMUncorrectable = ''0'',
                              ev_SRAMUncorrectableParity = [], ev_SRAMUncorrectableSECDED = [] \<rparr> \<rparr>"

definition out_sample :: "NvidiaSMIGPU list \<Rightarrow> SMIOutput" where
  "out_sample gpus =
     \<lparr> out_Timestamp = ''Sun Nov  1 2026'', out_DriverVersion = ''535.129.03'',
       out_CUDAVersion = ''12.2'', out_AttachedGPUs = int (length gpus), out_GPUs = gpus,
       out_Raw = [], out_Summary = ''| N/A   38C    P0   71W / 700W |'', out_SummaryFailure = None \<rparr>"

text \<open>The fields the per-device scan looks at.\<close>

definition scannedFields :: "NvidiaSMIGPU \<Rightarrow> string list" where
  "scannedFields g =
     (case gpu_Temperature g of
        None \<Rightarrow> []
      | Some t \<Rightarrow> [tm_Current t, tm_Limit t, tm_ShutdownLimit t, tm_SlowdownLimit t,
                   tm_MaxOperatingLimit t, tm_Target t, tm_MemoryCurrent t,
                   tm_MemoryMaxOperatingLimit t])
     @ [gpu_AddressingMode g, gpu_FanSpeed g]"

section \<open>NVML instance\<close>

text \<open>
  Return codes of the NVML library (\<open>nvml.Return\<close>); the codes the sources do not name
  are \<open>ERROR_OTHER\<close>. \<open>nvml.ErrorString\<close> is a parameter \<open>errorString\<close>.
\<close>

datatype nvml_Return = SUCCESS | ERROR_NOT_SUPPORTED | ERROR_TIMEOUT | ERROR_OTHER nat

type_synonym errorString = "nvml_Return \<Rightarrow> string"

text \<open>Event type bits of go-nvml.\<close>

definition EventTypeSingleBitEccError :: "64 word" where
  "EventTypeSingleBitEccError = 1"

definition EventTypeDoubleBitEccError :: "64 word" where
  "EventTypeDoubleBitEccError = 2"

definition EventTypeXidCriticalError :: "64 word" where
  "EventTypeXidCriticalError = 8"

definition defaultEventMask :: "64 word" where
  "defaultEventMask = EventTypeXidCriticalError OR EventTypeDoubleBitEccError OR EventTypeSingleBitEccError"

text \<open>
  \<open>DeviceInfo\<close>. The per-metric structs (\<open>ClockEvents\<close>, \<open>ClockSpeed\<close>, ...) are
  declared outside the files at hand: their values are payloads of a type \<open>'m\<close>. The
  device handle is a number.
\<close>

record 'm DeviceInfo =
  di_UUID :: string
  di_MinorNumber :: int
  di_Bus :: "32 word"
  di_Device :: "32 word"
  di_Name :: string
  di_GPUCores :: int
  di_SupportedEvents :: "64 word"
  di_ErrorSupported :: bool
  di_ClockEvents :: 'm
  di_ClockSpeed :: 'm
  di_Memory :: 'm
  di_NVLink :: 'm
  di_Power :: 'm
  di_Temperature :: 'm
  di_Utilization :: 'm
  di_Processes :: 'm
  di_ECCErrors :: 'm
  di_device :: nat

record 'm Output =
  o_Exists :: bool
  o_Message :: string
  o_DeviceInfos :: "'m DeviceInfo list"

record 'd XidEvent =
  xe_EventType :: "64 word"
  xe_Xid :: "64 word"
  xe_XidCriticalError :: bool
  xe_Detail :: "'d option"
  xe_Message :: string
  xe_Error :: "error option"

text \<open>
  The instance. \<open>rootCancelled\<close> tells whether \<open>rootCancel\<close> was called; \<open>nvmlLib\<close>
  and \<open>eventSet\<close> are \<open>None\<close> when nil; \<open>eventCh\<close> holds the events sent so far;
  \<open>pollLoops\<close> counts the \<open>pollXidEvents\<close> goroutines that were launched.
\<close>

record ('m, 'd) nvmlInstance =
  rootCancelled :: bool
  nvmlExists :: bool
  nvmlExistsMsg :: string
  nvmlLib :: "nat option"
  devices :: "string \<rightharpoonup> 'm DeviceInfo"
  eventSet :: "nat option"
  eventMask :: "64 word"
  eventCh :: "'d XidEvent list"
  pollLoops :: nat

text \<open>
  The per-metric queries (\<open>GetClockEvents\<close>, \<open>GetClockSpeed\<close>, ...) take the UUID and
  the device handle and answer a value and an error; \<open>q_zero\<close> is the zero value of a
  metric struct.
\<close>

record 'm queries =
  q_zero :: 'm
  GetClockEvents :: "string \<Rightarrow> nat \<Rightarrow> 'm \<times> error option"
  GetClockSpeed :: "string \<Rightarrow> nat \<Rightarrow> 'm \<times> error option"
  GetMemory :: "string \<Rightarrow> nat \<Rightarrow> 'm \<times> error option"
  GetNVLink :: "string \<Rightarrow> nat \<Rightarrow> 'm \<times> error option"
  GetPower :: "string \<Rightarrow> nat \<Rightarrow> 'm \<times> error option"
  GetTemperature :: "string \<Rightarrow> nat \<Rightarrow> 'm \<times> error option"
  GetUtilization :: "string \<Rightarrow> nat \<Rightarrow> 'm \<times> error option"
  GetProcesses :: "string \<Rightarrow> nat \<Rightarrow> 'm \<times> error option"
  GetECCErrors :: "string \<Rightarrow> nat \<Rightarrow> 'm \<times> error option"

text \<open>The fresh \<open>latestInfo\<close> of one loop iteration of \<open>Get\<close>.\<close>

definition latestInfoOf :: "'m queries \<Rightarrow> 'm DeviceInfo \<Rightarrow> 'm DeviceInfo" where
  "latestInfoOf q devInfo =
     \<lparr> di_UUID = di_UUID devInfo, di_MinorNumber = di_MinorNumber devInfo,
       di_Bus = di_Bus devInfo, di_Device = di_Device devInfo, di_Name = di_Name devInfo,
       di_GPUCores = di_GPUCores devInfo, di_SupportedEvents = di_SupportedEvents devInfo,
       di_ErrorSupported = di_ErrorSupported devInfo,
       di_ClockEvents = q_zero q, di_ClockSpeed = q_zero q, di_Memory = q_zero q,
       di_NVLink = q_zero q, di_Power = q_zero q, di_Temperature = q_zero q,
       di_Utilization = q_zero q, di_Processes = q_zero q, di_ECCErrors = q_zero q,
       di_device = di_device devInfo \<rparr>"

text \<open>
  The nine queries of one iteration, in order; each assigns its field and the first
  error ends the iteration (and \<open>Get\<close>).
\<close>

definition queryDevice :: "'m queries \<Rightarrow> 'm DeviceInfo \<Rightarrow> 'm DeviceInfo \<Rightarrow> 'm DeviceInfo \<times> error option" where
  "queryDevice q devInfo latestInfo =
     (case GetClockEvents q (di_UUID devInfo) (di_device devInfo) of (v1, err1) \<Rightarrow>
      let l1 = latestInfo \<lparr> di_ClockEvents := v1 \<rparr> in
      if err1 \<noteq> None then (l1, err1) else
     (case GetClockSpeed q (di_UUID devInfo) (di_device devInfo) of (v2, err2) \<Rightarrow>
      let l2 = l1 \<lparr> di_ClockSpeed := v2 \<rparr> in
      if err2 \<noteq> None then (l2, err2) else
     (case GetMemory q (di_UUID devInfo) (di_device devInfo) of (v3, err3) \<Rightarrow>
      let l3 = l2 \<lparr> di_Memory := v3 \<rparr> in
      if err3 \<noteq> None then (l3, err3) else
     (case GetNVLink q (di_UUID devInfo) (di_device devInfo) of (v4, err4) \<Rightarrow>
      let l4 = l3 \<lparr> di_NVLink := v4 \<rparr> in
      if err4 \<noteq> None then (l4, err4) else
     (case GetPower q (di_UUID devInfo) (di_device devInfo) of (v5, err5) \<Rightarrow>
      let l5 = l4 \<lparr> di_Power := v5 \<rparr> in
      if err5 \<noteq> None then (l5, err5) else
     (case GetTemperature q (di_UUID devInfo) (di_device devInfo) of (v6, err6) \<Rightarrow>
      let l6 = l5 \<lparr> di_Temperature := v6 \<rparr> in
      if err6 \<noteq> None then (l6, err6) else
     (case GetUtilization q (di_UUID devInfo) (di_device devInfo) of (v7, err7) \<Rightarrow>
      let l7 = l6 \<lparr> di_Utilization := v7 \<rparr> in
      if err7 \<noteq> None then (l7, err7) else
     (case GetProcesses q (di_UUID devInfo) (di_device devInfo) of (v8, err8) \<Rightarrow>
      let l8 = l7 \<lparr> di_Processes := v8 \<rparr> in
      if err8 \<noteq> None then (l8, err8) else
     (case GetECCErrors q (di_UUID devInfo) (di_device devInfo) of (v9, err9) \<Rightarrow>
      let l9 = l8 \<lparr> di_ECCErrors := v9 \<rparr> in
      (l9, err9))))))))))"

text \<open>
  The loop \<open>for _, devInfo := range inst.devices\<close>. Go leaves the order of a map
  range unspecified: \<open>order\<close> lists the keys in the order this call visits them.
  The result is \<open>st.DeviceInfos\<close> and the error that ended the loop, if any.
\<close>

fun rangeDevices :: "'m queries \<Rightarrow> (string \<rightharpoonup> 'm DeviceInfo) \<Rightarrow> string list \<Rightarrow> 'm DeviceInfo list \<Rightarrow>
    'm DeviceInfo list \<times> error option" where
  "rangeDevices q devs [] infos = (infos, None)"
| "rangeDevices q devs (k # ks) infos =
     (case devs k of
        None \<Rightarrow> rangeDevices q devs ks infos
      | Some devInfo \<Rightarrow>
         (case queryDevice q devInfo (latestInfoOf q devInfo) of
            (latestInfo, Some err) \<Rightarrow> (infos @ [latestInfo], Some err)
          | (latestInfo, None) \<Rightarrow> rangeDevices q devs ks (infos @ [latestInfo])))"

text \<open>
  \<open>instance.Get\<close>. \<open>sort.Slice\<close> by \<open>UUID\<close> (byte-wise string order) is \<open>sort_key\<close>;
  the map keys are distinct, so no two entries compare equal.
\<close>

definition Get :: "'m queries \<Rightarrow> string list \<Rightarrow> ('m, 'd) nvmlInstance \<Rightarrow> 'm Output option \<times> error option" where
  "Get q order inst =
     (if nvmlLib inst = None then (None, Some (errors_New ''nvml not initialized''))
      else
       (case rangeDevices q (devices inst) order [] of
          (infos, Some err) \<Rightarrow>
            (Some \<lparr> o_Exists = nvmlExists inst, o_Message = nvmlExistsMsg inst, o_DeviceInfos = infos \<rparr>,
             Some err)
        | (infos, None) \<Rightarrow>
            (Some \<lparr> o_Exists = nvmlExists inst, o_Message = nvmlExistsMsg inst,
                    o_DeviceInfos = sort_key di_UUID infos \<rparr>,
             None)))"

definition Exists :: "('m, 'd) nvmlInstance \<Rightarrow> bool" where
  "Exists inst = (nvmlLib inst \<noteq> None \<and> nvmlExists inst)"

text \<open>\<open>RecvXidEvents\<close>: the channel (its contents here), or \<open>None\<close> for a nil channel.\<close>

definition RecvXidEvents :: "('m, 'd) nvmlInstance \<Rightarrow> 'd XidEvent list option" where
  "RecvXidEvents inst = (if nvmlLib inst = None then None else Some (eventCh inst))"

text \<open>
  \<open>instance.Shutdown\<close>. \<open>freeRet\<close> and \<open>shutdownRet\<close> are what \<open>eventSet.Free()\<close>
  and \<open>nvmlLib.Shutdown()\<close> return if they are called.
\<close>

definition Shutdown :: "errorString \<Rightarrow> nvml_Return \<Rightarrow> nvml_Return \<Rightarrow> ('m, 'd) nvmlInstance \<Rightarrow>
    ('m, 'd) nvmlInstance \<times> error option" where
  "Shutdown errorString freeRet shutdownRet inst =
     (if nvmlLib inst = None then (inst, None)
      else
       (let inst1 = inst \<lparr> rootCancelled := True \<rparr> in
        if eventSet inst1 \<noteq> None \<and> freeRet \<noteq> SUCCESS
        then (inst1, Some (fmt_Errorf (''failed to free event set: '' @ errorString freeRet)))
        else
         (let inst2 = inst1 \<lparr> eventSet := None \<rparr> in
          if shutdownRet \<noteq> SUCCESS
          then (inst2, Some (fmt_Errorf (''failed to shutdown NVML: '' @ errorString shutdownRet)))
          else (inst2 \<lparr> nvmlLib := None \<rparr>, None))))"

definition NVMLExists :: "('m, 'd) nvmlInstance \<Rightarrow> bool" where
  "NVMLExists inst = nvmlExists inst"

text \<open>
  What the device library answers during \<open>Start\<close>: the devices (handles) and an
  error from \<open>GetDevices\<close>, and for each device its attributes with their return
  codes; \<open>PciInfo\<close> is the pair of bus and device.
\<close>

record deviceLib =
  lib_GetDevices :: "nat list \<times> error option"
  lib_GetUUID :: "nat \<Rightarrow> string \<times> nvml_Return"
  lib_GetMinorNumber :: "nat \<Rightarrow> int \<times> nvml_Return"
  lib_GetPciInfo :: "nat \<Rightarrow> (32 word \<times> 32 word) \<times> nvml_Return"
  lib_GetName :: "nat \<Rightarrow> string \<times> nvml_Return"
  lib_GetNumGpuCores :: "nat \<Rightarrow> int \<times> nvml_Return"
  lib_GetSupportedEventTypes :: "nat \<Rightarrow> 64 word \<times> nvml_Return"
  lib_RegisterEvents :: "nat \<Rightarrow> 64 word \<Rightarrow> nvml_Return"

text \<open>One iteration of the device loop of \<open>Start\<close>: the entry to store, or the error.\<close>

definition startDevice :: "errorString \<Rightarrow> deviceLib \<Rightarrow> 'm \<Rightarrow> 64 word \<Rightarrow> nat \<Rightarrow> error + 'm DeviceInfo" where
  "startDevice errorString lib zero interest d =
     (case lib_GetUUID lib d of (uuid, ret1) \<Rightarrow>
      if ret1 \<noteq> SUCCESS then Inl (fmt_Errorf (''failed to get device uuid: '' @ errorString ret1))
      else if uuid = [] then Inl (errors_New ''device uuid is empty'')
      else
     (case lib_GetMinorNumber lib d of (minorNumber, ret2) \<Rightarrow>
      if ret2 \<noteq> SUCCESS then Inl (fmt_Errorf (''failed to get device minor number: '' @ errorString ret2))
      else
     (case lib_GetPciInfo lib d of (pciInfo, ret3) \<Rightarrow>
      if ret3 \<noteq> SUCCESS then Inl (fmt_Errorf (''failed to get device PCI info: '' @ errorString ret3))
      else
     (case lib_GetName lib d of (name, ret4) \<Rightarrow>
      if ret4 \<noteq> SUCCESS then Inl (fmt_Errorf (''failed to get device name: '' @ errorString ret4))
      else
     (case lib_GetNumGpuCores lib d of (cores, ret5) \<Rightarrow>
      if ret5 \<noteq> SUCCESS then Inl (fmt_Errorf (''failed to get device cores: '' @ errorString ret5))
      else
     (case lib_GetSupportedEventTypes lib d of (supportedEvents, ret6) \<Rightarrow>
      if ret6 \<noteq> SUCCESS then Inl (fmt_Errorf (''failed to get supported event types: '' @ errorString ret6))
      else
       (let devInfo = \<lparr> di_UUID = uuid, di_MinorNumber = minorNumber, di_Bus = fst pciInfo,
                         di_Device = snd pciInfo, di_Name = name, di_GPUCores = cores,
                         di_SupportedEvents = supportedEvents, di_ErrorSupported = True,
                         di_ClockEvents = zero, di_ClockSpeed = zero, di_Memory = zero,
                         di_NVLink = zero, di_Power = zero, di_Temperature = zero,
                         di_Utilization = zero, di_Processes = zero, di_ECCErrors = zero,
                         di_device = d \<rparr>;
            ret = lib_RegisterEvents lib d (interest AND supportedEvents)
        in if ret \<noteq> SUCCESS then Inl (fmt_Errorf (''failed to register events: '' @ errorString ret))
           else Inr (if ret = ERROR_NOT_SUPPORTED then devInfo \<lparr> di_ErrorSupported := False \<rparr>
                     else devInfo))))))))"

fun startDevices :: "errorString \<Rightarrow> deviceLib \<Rightarrow> 'm \<Rightarrow> 64 word \<Rightarrow> nat list \<Rightarrow>
    (string \<rightharpoonup> 'm DeviceInfo) \<Rightarrow> (string \<rightharpoonup> 'm DeviceInfo) \<times> error option" where
  "startDevices errorString lib zero interest [] devs = (devs, None)"
| "startDevices errorString lib zero interest (d # ds) devs =
     (case startDevice errorString lib zero interest d of
        Inl err \<Rightarrow> (devs, Some err)
      | Inr devInfo \<Rightarrow> startDevices errorString lib zero interest ds (devs(di_UUID devInfo \<mapsto> devInfo)))"

text \<open>\<open>instance.Start\<close>; launching \<open>pollXidEvents\<close> is counted in \<open>pollLoops\<close>.\<close>

definition Start :: "errorString \<Rightarrow> deviceLib \<Rightarrow> 'm \<Rightarrow> ('m, 'd) nvmlInstance \<Rightarrow>
    ('m, 'd) nvmlInstance \<times> error option" where
  "Start errorString lib zero inst =
     (if nvmlLib inst = None then (inst, Some (errors_New ''nvml not initialized''))
      else if \<not> nvmlExists inst then (inst, Some (errors_New ''nvml not found''))
      else
       (case lib_GetDevices lib of
          (ds, Some err) \<Rightarrow> (inst, Some err)
        | (ds, None) \<Rightarrow>
           (case startDevices errorString lib zero (eventMask inst) ds Map.empty of
              (devs, Some err) \<Rightarrow> (inst \<lparr> devices := devs \<rparr>, Some err)
            | (devs, None) \<Rightarrow>
                (inst \<lparr> devices := devs, pollLoops := pollLoops inst + 1 \<rparr>, None))))"

text \<open>
  \<open>pollXidEvents\<close>. What one iteration of the loop meets: whether \<open>rootCtx\<close> is
  done at the first \<open>select\<close>, what \<open>eventSet.Wait(5000)\<close> returns, and whether the
  publishing \<open>select\<close> takes the \<open>Done\<close> branch instead of the send.
  \<open>nvidia_query_xid.GetDetail\<close> is a parameter \<open>getDetail\<close>.
\<close>

record nvml_EventData =
  ed_EventType :: "64 word"
  ed_EventData :: "64 word"

record pollInput =
  doneAtTop :: bool
  waitEvent :: nvml_EventData
  waitRet :: nvml_Return
  doneAtSend :: bool

datatype pollStatus = Looping | Returned

definition waitFailureEvent :: "errorString \<Rightarrow> nvml_Return \<Rightarrow> 'd XidEvent" where
  "waitFailureEvent errorString ret =
     \<lparr> xe_EventType = 0, xe_Xid = 0, xe_XidCriticalError = False, xe_Detail = None,
       xe_Message = ''event set wait returned non-success'',
       xe_Error = Some (fmt_Errorf (''event set wait failed: '' @ errorString ret)) \<rparr>"

definition xidEvent :: "(int \<Rightarrow> 'd option \<times> bool) \<Rightarrow> nvml_EventData \<Rightarrow> 'd XidEvent" where
  "xidEvent getDetail e =
     (let xid = ed_EventData e;
          found = (if xid > 0 then getDetail (sint xid) else (None, False));
          msg = (if xid > 0 \<and> snd found then ''received event with a known xid''
                 else ''received event but xid unknown'')
      in \<lparr> xe_EventType = ed_EventType e, xe_Xid = xid,
           xe_XidCriticalError = (ed_EventType e = EventTypeXidCriticalError),
           xe_Detail = fst found, xe_Message = msg, xe_Error = None \<rparr>)"

text \<open>One iteration: the status of the loop and the contents of \<open>eventCh\<close> after it.\<close>

definition pollIteration :: "(int \<Rightarrow> 'd option \<times> bool) \<Rightarrow> errorString \<Rightarrow> pollInput \<Rightarrow> 'd XidEvent list \<Rightarrow>
    pollStatus \<times> 'd XidEvent list" where
  "pollIteration getDetail errorString inp ch =
     (if doneAtTop inp then (Returned, ch)
      else if waitRet inp = ERROR_TIMEOUT then (Looping, ch)
      else if waitRet inp \<noteq> SUCCESS then
        (if doneAtSend inp then (Returned, ch)
         else (Looping, ch @ [waitFailureEvent errorString (waitRet inp)]))
      else
        (if doneAtSend inp then (Returned, ch)
         else (Looping, ch @ [xidEvent getDetail (waitEvent inp)])))"

text \<open>
  The loop over what its iterations meet, one entry each: the loop has returned, or
  is still looping when the entries are used up.
\<close>

fun pollXidEvents :: "(int \<Rightarrow> 'd option \<times> bool) \<Rightarrow> errorString \<Rightarrow> pollInput list \<Rightarrow> 'd XidEvent list \<Rightarrow>
    pollStatus \<times> 'd XidEvent list" where
  "pollXidEvents getDetail errorString [] ch = (Looping, ch)"
| "pollXidEvents getDetail errorString (inp # inps) ch =
     (case pollIteration getDetail errorString inp ch of
        (Returned, ch') \<Rightarrow> (Returned, ch')
      | (Looping, ch') \<Rightarrow> pollXidEvents getDetail errorString inps ch')"

text \<open>
  An event \<open>ev\<close> is accounted for by an iteration when its wait did not time out and
  either failed, \<open>ev\<close> carrying the wait error and no fault code, or succeeded, \<open>ev\<close>
  carrying the fault code of the event and no error.
\<close>

definition publishedBy :: "errorString \<Rightarrow> pollInput \<Rightarrow> 'd XidEvent \<Rightarrow> bool" where
  "publishedBy errorString inp ev =
     (waitRet inp \<noteq> ERROR_TIMEOUT \<and>
      (if waitRet inp \<noteq> SUCCESS
       then xe_Error ev = Some (fmt_Errorf (''event set wait failed: '' @ errorString (waitRet inp))) \<and>
            xe_Xid ev = 0 \<and> xe_Detail ev = None
       else xe_Error ev = None \<and> xe_Xid ev = ed_EventData (waitEvent inp) \<and>
            xe_EventType ev = ed_EventType (waitEvent inp)))"

text \<open>Calls on an instance, and their results.\<close>

datatype call = Call_Shutdown nvml_Return nvml_Return | Call_Get "string list"
  | Call_Exists | Call_RecvXidEvents | Call_Start deviceLib | Call_NVMLExists

datatype ('m, 'd) reply = Reply_Shutdown "error option"
  | Reply_Get "'m Output option \<times> error option"
  | Reply_Exists bool | Reply_RecvXidEvents "'d XidEvent list option"
  | Reply_Start "error option" | Reply_NVMLExists bool

fun perform :: "errorString \<Rightarrow> 'm queries \<Rightarrow> call \<Rightarrow> ('m, 'd) nvmlInstance \<Rightarrow>
    ('m, 'd) reply \<times> ('m, 'd) nvmlInstance" where
  "perform errorString q (Call_Shutdown freeRet shutdownRet) inst =
     (case Shutdown errorString freeRet shutdownRet inst of (inst', err) \<Rightarrow> (Reply_Shutdown err, inst'))"
| "perform errorString q (Call_Get order) inst = (Reply_Get (Get q order inst), inst)"
| "perform errorString q Call_Exists inst = (Reply_Exists (Exists inst), inst)"
| "perform errorString q Call_RecvXidEvents inst = (Reply_RecvXidEvents (RecvXidEvents inst), inst)"
| "perform errorString q (Call_Start lib) inst =
     (case Start errorString lib (q_zero q) inst of (inst', err) \<Rightarrow> (Reply_Start err, inst'))"
| "perform errorString q Call_NVMLExists inst = (Reply_NVMLExists (NVMLExists inst), inst)"

fun performAll :: "errorString \<Rightarrow> 'm queries \<Rightarrow> call list \<Rightarrow> ('m, 'd) nvmlInstance \<Rightarrow>
    ('m, 'd) reply list \<times> ('m, 'd) nvmlInstance" where
  "performAll errorString q [] inst = ([], inst)"
| "performAll errorString q (c # cs) inst =
     (case perform errorString q c inst of (r, inst') \<Rightarrow>
      (case performAll errorString q cs inst' of (rs, inst'') \<Rightarrow> (r # rs, inst'')))"

text \<open>What each call answers on an instance that was shut down.\<close>

fun replyAfterShutdown :: "('m, 'd) nvmlInstance \<Rightarrow> call \<Rightarrow> ('m, 'd) reply" where
  "replyAfterShutdown inst (Call_Shutdown freeRet shutdownRet) = Reply_Shutdown None"
| "replyAfterShutdown inst (Call_Get order) = Reply_Get (None, Some (errors_New ''nvml not initialized''))"
| "replyAfterShutdown inst Call_Exists = Reply_Exists False"
| "replyAfterShutdown inst Call_RecvXidEvents = Reply_RecvXidEvents None"
| "replyAfterShutdown inst (Call_Start lib) = Reply_Start (Some (errors_New ''nvml not initialized''))"
| "replyAfterShutdown inst Call_NVMLExists = Reply_NVMLExists (nvmlExists inst)"

text \<open>
  Samples: two devices, queries that fail on one of them, a running instance, and a
  device library that lists the two devices.
\<close>

definition lib_sample :: deviceLib where
  "lib_sample =
     \<lparr> lib_GetDevices = ([0, 1], None),
       lib_GetUUID = (\<lambda>d. (if d = 0 then ''GPU-a'' else ''GPU-b'', SUCCESS)),
       lib_GetMinorNumber = (\<lambda>d. (0, SUCCESS)),
       lib_GetPciInfo = (\<lambda>d. ((0x53, 0), SUCCESS)),
       lib_GetName = (\<lambda>d. (''NVIDIA H100'', SUCCESS)),
       lib_GetNumGpuCores = (\<lambda>d. (16896, SUCCESS)),
       lib_GetSupportedEventTypes = (\<lambda>d. (0x1F, SUCCESS)),
       lib_RegisterEvents = (\<lambda>d interest. SUCCESS) \<rparr>"

definition di_sample :: "string \<Rightarrow> nat \<Rightarrow> nat DeviceInfo" where
  "di_sample uuid handle =
     \<lparr> di_UUID = uuid, di_MinorNumber = 0, di_Bus = 0x53, di_Device = 0, di_Name = ''NVIDIA H100'',
       di_GPUCores = 16896, di_SupportedEvents = 0x1F, di_ErrorSupported = True,
       di_ClockEvents = 0, di_ClockSpeed = 0, di_Memory = 0, di_NVLink = 0, di_Power = 0,
       di_Temperature = 0, di_Utilization = 0, di_Processes = 0, di_ECCErrors = 0,
       di_device = handle \<rparr>"

definition q_sample :: "string \<Rightarrow> nat queries" where
  "q_sample failing =
     \<lparr> q_zero = 0,
       GetClockEvents = (\<lambda>uuid d. if uuid = failing
                           then (0, Some (fmt_Errorf ''failed to get device clock events''))
                           else (1, None)),
       GetClockSpeed = (\<lambda>uuid d. (2, None)), GetMemory = (\<lambda>uuid d. (3, None)),
       GetNVLink = (\<lambda>uuid d. (4, None)), GetPower = (\<lambda>uuid d. (5, None)),
       GetTemperature = (\<lambda>uuid d. (6, None)), GetUtilization = (\<lambda>uuid d. (7, None)),
       GetProcesses = (\<lambda>uuid d. (8, None)), GetECCErrors = (\<lambda>uuid d. (9, None)) \<rparr>"

definition inst_sample :: "(nat, unit) nvmlInstance" where
  "inst_sample =
     \<lparr> rootCancelled = False, nvmlExists = True, nvmlExistsMsg = ''found'',
       nvmlLib = Some 1,
       devices = [''GPU-a'' \<mapsto> di_sample ''GPU-a'' 0, ''GPU-b'' \<mapsto> di_sample ''GPU-b'' 1],
       eventSet = Some 1, eventMask = defaultEventMask, eventCh = [], pollLoops = 1 \<rparr>"

definition es_sample :: errorString where
  "es_sample ret = (case ret of SUCCESS \<Rightarrow> ''Success'' | ERROR_NOT_SUPPORTED \<Rightarrow> ''Not Supported''
                    | ERROR_TIMEOUT \<Rightarrow> ''Timeout'' | ERROR_OTHER n \<Rightarrow> ''Unknown Error'')"

definition in_sample :: "nvml_Return \<Rightarrow> pollInput" where
  "in_sample ret =
     \<lparr> doneAtTop = False, waitEvent = \<lparr> ed_EventType = 8, ed_EventData = 79 \<rparr>,
       waitRet = ret, doneAtSend = False \<rparr>"

text \<open>The device list of a result of \<open>Get\<close> and its UUIDs, none for a nil result.\<close>

definition infosOf :: "'m Output option \<Rightarrow> 'm DeviceInfo list" where
  "infosOf r = (case r of None \<Rightarrow> [] | Some st \<Rightarrow> o_DeviceInfos st)"

definition uuidsOf :: "'m Output option \<Rightarrow> string list" where
  "uuidsOf r = map di_UUID (infosOf r)"

text \<open>
  The devices in the order the range of \<open>Get\<close> visits them; for one device, the info
  that its nine queries leave and the error that ended them, if any.
\<close>

definition visited :: "(string \<rightharpoonup> 'm DeviceInfo) \<Rightarrow> string list \<Rightarrow> 'm DeviceInfo list" where
  "visited devs order = List.map_filter devs order"

definition queried :: "'m queries \<Rightarrow> 'm DeviceInfo \<Rightarrow> 'm DeviceInfo" where
  "queried q devInfo = fst (queryDevice q devInfo (latestInfoOf q devInfo))"

definition queryError :: "'m queries \<Rightarrow> 'm DeviceInfo \<Rightarrow> error option" where
  "queryError q devInfo = snd (queryDevice q devInfo (latestInfoOf q devInfo))"

definition queriesOK :: "'m queries \<Rightarrow> 'm DeviceInfo \<Rightarrow> bool" where
  "queriesOK q devInfo = (queryError q devInfo = None)"


section \<open>Verification\<close>

subsection \<open>Unit-suffixed getters\<close>

lemmas getter_defs =
  GetCurrentCelsius_def GetLimitCelsius_def GetShutdownCelsius_def GetShutdownLimitCelsius_def
  GetSlowdownCelsius_def GetSlowdownLimitCelsius_def
  GetPowerDrawW_def GetCurrentPowerLimitW_def GetRequestedPowerLimitW_def
  GetDefaultPowerLimitW_def GetMinPowerLimitW_def GetMaxPowerLimitW_def

lemmas eval_defs = HasSuffix_def TrimSuffix_def ParseFloat_decimal_def isDigit_def digitsVal_def
  tm_sample_def pw_sample_def

text \<open>
  Claim C1. Every temperature getter (suffix \<open>" C"\<close>) and every power getter (suffix
  \<open>" W"\<close>) answers the absence error \<open>errors.New("N/A")\<close> when its field is exactly
  \<open>N/A\<close>, and a format error built by \<open>fmt.Errorf\<close> when the field is not \<open>N/A\<close> and
  lacks the suffix; the absence error is never reported as a format error, nor a
  malformed value as absent.
\<close>

theorem C1_getters_classify:
  "classifies (GetCurrentCelsius pf) tm_Current '' C'' tm \<and>
   classifies (GetLimitCelsius pf) tm_Limit '' C'' tm \<and>
   classifies (GetShutdownCelsius pf) tm_Shutdown '' C'' tm \<and>
   classifies (GetShutdownLimitCelsius pf) tm_ShutdownLimit '' C'' tm \<and>
   classifies (GetSlowdownCelsius pf) tm_Slowdown '' C'' tm \<and>
   classifies (GetSlowdownLimitCelsius pf) tm_SlowdownLimit '' C'' tm \<and>
   classifies (GetPowerDrawW pf) pw_PowerDraw '' W'' g \<and>
   classifies (GetCurrentPowerLimitW pf) pw_CurrentPowerLimit '' W'' g \<and>
   classifies (GetRequestedPowerLimitW pf) pw_RequestedPowerLimit '' W'' g \<and>
   classifies (GetDefaultPowerLimitW pf) pw_DefaultPowerLimit '' W'' g \<and>
   classifies (GetMinPowerLimitW pf) pw_MinPowerLimit '' W'' g \<and>
   classifies (GetMaxPowerLimitW pf) pw_MaxPowerLimit '' W'' g"
  by (simp add: classifies_def isAbsenceErr_def isFormatErr_def HasPrefix_def getter_defs Let_def)

theorem C1_getters_classify_witness:
  "isAbsenceErr (GetCurrentCelsius ParseFloat_decimal (tm_sample ''N/A'' ''N/A'' ''95 C'' ''N/A'' ''N/A'' ''N/A'')) \<and>
   isFormatErr (GetShutdownCelsius ParseFloat_decimal (tm_sample ''75 F'' ''N/A'' ''95'' ''N/A'' ''N/A'' ''N/A'')) \<and>
   isAbsenceErr (GetPowerDrawW ParseFloat_decimal (pw_sample ''N/A'' ''700.00 W'' ''700.00 W'')) \<and>
   isFormatErr (GetRequestedPowerLimitW ParseFloat_decimal (pw_sample ''71.01 W'' ''700.00 W'' ''700.00 Watts''))"
  using C1_getters_classify [of ParseFloat_decimal "tm_sample ''N/A'' ''N/A'' ''95 C'' ''N/A'' ''N/A'' ''N/A''"
          "pw_sample ''N/A'' ''700.00 W'' ''700.00 W''"]
        C1_getters_classify [of ParseFloat_decimal "tm_sample ''75 F'' ''N/A'' ''95'' ''N/A'' ''N/A'' ''N/A''"
          "pw_sample ''71.01 W'' ''700.00 W'' ''700.00 Watts''"]
  by (simp add: classifies_def tm_sample_def pw_sample_def HasSuffix_def)

text \<open>
  Claim C4. A format error should name the field that held the offending value and
  report that value. The code does not: \<open>GetShutdownCelsius\<close> on a record with
  \<open>Shutdown = "95 F"\<close> and \<open>Limit = "N/A"\<close> prints the value of \<open>Limit\<close> (\<open>N/A\<close>) in
  its message, and \<open>GetRequestedPowerLimitW\<close> on \<open>"650 Watts"\<close> calls the field
  \<open>current power limit\<close>.
\<close>

theorem C4_format_error_misnames_field:
  "GetShutdownCelsius pf (tm_sample ''75 C'' ''N/A'' ''95 F'' ''N/A'' ''N/A'' ''N/A'') =
     (zero64, Some (fmt_Errorf ''invalid GPU t.shutdown temperature: N/A (expected celsius)'')) \<and>
   GetRequestedPowerLimitW pf (pw_sample ''71.01 W'' ''700.00 W'' ''650 Watts'') =
     (zero64, Some (fmt_Errorf ''invalid current power limit: 650 Watts (expected watts)''))"
  by (simp add: getter_defs eval_defs)


subsection \<open>Temperature normalisation\<close>

lemmas float_defs = roundRat_def roundHalfEvenDiv_def bitlen.simps hundred64_def zero64_def Let_def

lemma gt0_not_eq0: "gt0 x \<Longrightarrow> \<not> eq0 x"
  by (cases x) auto

lemma Parse_UsedPercent:
  assumes "snd (GetCurrentCelsius pf tm) = None"
  shows "snd (SMIGPUTemperature_Parse pf tm) = None \<and>
         pt_UsedPercent (fst (SMIGPUTemperature_Parse pf tm)) =
           (if gt0 (resolvedLimit pf tm)
            then Sprintf_2f (fmul (fdiv (fst (GetCurrentCelsius pf tm)) (resolvedLimit pf tm)) hundred64)
            else ''0.0'')"
proof -
  obtain cur where c: "GetCurrentCelsius pf tm = (cur, None)"
    using assms by (cases "GetCurrentCelsius pf tm") auto
  obtain sv se where s: "shutdownLimitOf pf tm = (sv, se)" by (cases "shutdownLimitOf pf tm")
  obtain wv we where w: "slowdownOf pf tm = (wv, we)" by (cases "slowdownOf pf tm")
  obtain lv le where l: "GetLimitCelsius pf tm = (lv, le)" by (cases "GetLimitCelsius pf tm")
  have s': "(case GetShutdownCelsius pf tm of (v, None) \<Rightarrow> (v, None)
             | (v, Some e) \<Rightarrow> GetShutdownLimitCelsius pf tm) = (sv, se)"
    using s by (simp add: shutdownLimitOf_def)
  have w': "(case GetSlowdownCelsius pf tm of (v, None) \<Rightarrow> (v, None)
             | (v, Some e) \<Rightarrow> GetSlowdownLimitCelsius pf tm) = (wv, we)"
    using w by (simp add: slowdownOf_def)
  have lz: "le \<noteq> None \<Longrightarrow> lv = zero64"
    using l by (auto simp: GetLimitCelsius_def Let_def split: if_splits prod.splits option.splits)
  have z: "eq0 zero64" "\<not> gt0 zero64" by (simp_all add: zero64_def)
  show ?thesis
    using lz z gt0_not_eq0 [of sv]
    by (auto simp: SMIGPUTemperature_Parse_def c s' w' l resolvedLimit_def s w Let_def)
qed

lemma decimal_samples:
  "ParseFloat_decimal ''75'' = (Finite False 5277655813324800 (- 46), None)"
  "ParseFloat_decimal ''95'' = (Finite False 6685030696878080 (- 46), None)"
  "ParseFloat_decimal ''90'' = (Finite False 6333186975989760 (- 46), None)"
  "ParseFloat_decimal ''0'' = (Finite False 0 0, None)"
  by (simp_all add: ParseFloat_decimal_def isDigit_def digitsVal_def float_defs)

lemma used_percent_samples:
  "Sprintf_2f (fmul (fdiv (fst (ParseFloat_decimal ''75'')) (fst (ParseFloat_decimal ''95'')))
                 hundred64) = ''78.95''"
  "Sprintf_2f (fmul (fdiv (fst (ParseFloat_decimal ''75'')) (fst (ParseFloat_decimal ''90'')))
                 hundred64) = ''83.33''"
  unfolding decimal_samples fst_conv by (simp_all add: float_defs digit_def Itoa.simps)

text \<open>
  Binary64 rounding shows in the printed value: \<open>49 / 160 * 100\<close> is \<open>30.625\<close> in exact
  arithmetic, just above it in \<open>float64\<close>, and prints as \<open>30.63\<close>; the literal
  \<open>2.675\<close> is just below \<open>2.675\<close> and prints as \<open>2.67\<close>; a negative zero prints as
  \<open>-0.00\<close>.
\<close>

lemma binary64_samples:
  "Sprintf_2f (fmul (fdiv (fst (ParseFloat_decimal ''49'')) (fst (ParseFloat_decimal ''160'')))
                 hundred64) = ''30.63''"
  "Sprintf_2f (fst (ParseFloat_decimal ''2.675'')) = ''2.67''"
  "Sprintf_2f (fst (ParseFloat_decimal ''-0'')) = ''-0.00''"
  "Sprintf_2f (fmul (fdiv (fst (ParseFloat_decimal ''75'')) (Inf False)) hundred64) = ''0.00''"
  "Sprintf_2f (fmul (fdiv NaN (fst (ParseFloat_decimal ''95''))) hundred64) = ''NaN''"
  by (simp_all add: ParseFloat_decimal_def isDigit_def digitsVal_def float_defs digit_def Itoa.simps)

lemma sign_samples:
  "snd (ParseFloat_decimal ''75'') = None"
  "gt0 (fst (ParseFloat_decimal ''95''))" "gt0 (fst (ParseFloat_decimal ''90''))"
  "\<not> gt0 (fst (ParseFloat_decimal ''0''))"
  by (simp_all add: decimal_samples)

lemma sample_fallback_values:
  "GetCurrentCelsius ParseFloat_decimal (tm_sample ''75 C'' ''N/A'' ''95 C'' ''N/A'' ''N/A'' ''N/A'') =
     ParseFloat_decimal ''75''"
  "resolvedLimit ParseFloat_decimal (tm_sample ''75 C'' ''N/A'' ''95 C'' ''N/A'' ''N/A'' ''N/A'') =
     fst (ParseFloat_decimal ''95'')"
  by (simp_all add: resolvedLimit_def shutdownLimitOf_def slowdownOf_def getter_defs
        HasSuffix_def TrimSuffix_def tm_sample_def decimal_samples)

lemma sample_zero_shutdown_values:
  "GetCurrentCelsius ParseFloat_decimal (tm_sample ''75 C'' ''N/A'' ''0 C'' ''N/A'' ''90 C'' ''N/A'') =
     ParseFloat_decimal ''75''"
  "resolvedLimit ParseFloat_decimal (tm_sample ''75 C'' ''N/A'' ''0 C'' ''N/A'' ''90 C'' ''N/A'') =
     fst (ParseFloat_decimal ''90'')"
  "spec_resolvedLimit ParseFloat_decimal (tm_sample ''75 C'' ''N/A'' ''0 C'' ''N/A'' ''90 C'' ''N/A'') =
     Some (fst (ParseFloat_decimal ''0''))"
  by (simp_all add: resolvedLimit_def spec_resolvedLimit_def spec_available_def
        shutdownLimitOf_def slowdownOf_def getter_defs
        HasSuffix_def TrimSuffix_def tm_sample_def decimal_samples)

text \<open>
  Claim C2, as amended. When the current temperature parses, \<open>Parse\<close> succeeds and the
  used-percent is \<open>current / limit * 100\<close>, computed in \<open>float64\<close> and printed with two
  decimals, where the limit is the explicit limit whenever its getter succeeds,
  otherwise the shutdown value when it is greater than zero, otherwise the slowdown
  value when it is greater than zero; the used-percent is \<open>0.0\<close> when the limit so
  resolved is not greater than zero. For current \<open>75 C\<close>, limit \<open>N/A\<close>, shutdown
  \<open>95 C\<close> the used-percent is \<open>78.95\<close>.
\<close>

theorem C2_used_percent:
  "(snd (GetCurrentCelsius pf tm) = None \<longrightarrow>
      snd (SMIGPUTemperature_Parse pf tm) = None \<and>
      pt_UsedPercent (fst (SMIGPUTemperature_Parse pf tm)) =
        (if gt0 (resolvedLimit pf tm)
         then Sprintf_2f (fmul (fdiv (fst (GetCurrentCelsius pf tm)) (resolvedLimit pf tm)) hundred64)
         else ''0.0'')) \<and>
   pt_UsedPercent (fst (SMIGPUTemperature_Parse ParseFloat_decimal
       (tm_sample ''75 C'' ''N/A'' ''95 C'' ''N/A'' ''N/A'' ''N/A''))) = ''78.95''"
proof -
  let ?tm = "tm_sample ''75 C'' ''N/A'' ''95 C'' ''N/A'' ''N/A'' ''N/A''"
  have "snd (GetCurrentCelsius ParseFloat_decimal ?tm) = None"
    by (simp only: sample_fallback_values sign_samples)
  from Parse_UsedPercent [OF this]
  have "pt_UsedPercent (fst (SMIGPUTemperature_Parse ParseFloat_decimal ?tm)) = ''78.95''"
    by (simp only: sample_fallback_values sign_samples if_True used_percent_samples)
  then show ?thesis using Parse_UsedPercent [of pf tm] by blast
qed

theorem C2_used_percent_witness:
  "snd (GetCurrentCelsius ParseFloat_decimal (tm_sample ''75 C'' ''N/A'' ''95 C'' ''N/A'' ''N/A'' ''N/A'')) = None \<and>
   resolvedLimit ParseFloat_decimal (tm_sample ''75 C'' ''N/A'' ''95 C'' ''N/A'' ''N/A'' ''N/A'') =
     fst (ParseFloat_decimal ''95'') \<and>
   gt0 (fst (ParseFloat_decimal ''95'')) \<and>
   snd (SMIGPUTemperature_Parse ParseFloat_decimal
       (tm_sample ''75 C'' ''N/A'' ''95 C'' ''N/A'' ''N/A'' ''N/A'')) = None \<and>
   pt_UsedPercent (fst (SMIGPUTemperature_Parse ParseFloat_decimal
       (tm_sample ''75 C'' ''N/A'' ''95 C'' ''N/A'' ''N/A'' ''N/A''))) =
     Sprintf_2f (fmul (fdiv (fst (ParseFloat_decimal ''75'')) (fst (ParseFloat_decimal ''95''))) hundred64)"
  using C2_used_percent [of ParseFloat_decimal "tm_sample ''75 C'' ''N/A'' ''95 C'' ''N/A'' ''N/A'' ''N/A''"]
  by (simp only: sample_fallback_values sign_samples if_True simp_thms)

text \<open>
  The claim as the specification words it (the first available limit wins) fails on
  current \<open>75 C\<close>, limit \<open>N/A\<close>, shutdown \<open>0 C\<close>, slowdown \<open>90 C\<close>: the shutdown
  limit is available and is 0, so the specification reports \<open>0.0\<close>, while \<open>Parse\<close>
  passes on to the slowdown value and reports \<open>83.33\<close>.
\<close>

theorem C2_first_available_counterexample:
  "pt_UsedPercent (fst (SMIGPUTemperature_Parse ParseFloat_decimal
       (tm_sample ''75 C'' ''N/A'' ''0 C'' ''N/A'' ''90 C'' ''N/A''))) = ''83.33'' \<and>
   spec_UsedPercent ParseFloat_decimal (tm_sample ''75 C'' ''N/A'' ''0 C'' ''N/A'' ''90 C'' ''N/A'') = ''0.0''"
proof -
  let ?tm = "tm_sample ''75 C'' ''N/A'' ''0 C'' ''N/A'' ''90 C'' ''N/A''"
  have "snd (GetCurrentCelsius ParseFloat_decimal ?tm) = None"
    by (simp only: sample_zero_shutdown_values sign_samples)
  from Parse_UsedPercent [OF this]
  have "pt_UsedPercent (fst (SMIGPUTemperature_Parse ParseFloat_decimal ?tm)) = ''83.33''"
    by (simp only: sample_zero_shutdown_values sign_samples if_True used_percent_samples)
  moreover have "spec_UsedPercent ParseFloat_decimal ?tm = ''0.0''"
    by (simp add: spec_UsedPercent_def sample_zero_shutdown_values sign_samples)
  ultimately show ?thesis by (simp only: simp_thms)
qed


subsection \<open>Anomaly scans\<close>

lemma len_zero_nil: "len (if length xs = 0 then None else Some xs) = 0 \<longleftrightarrow>
    (if length xs = 0 then None else Some xs) = None"
  by simp

text \<open>
  Claim C5. When the top-level HW Slowdown flag of a GPU record is not \<open>Active\<close> (or
  the record has no clock-event reasons at all), \<open>FindHWSlowdownErrs\<close> returns nil,
  whatever the thermal-slowdown and power-brake-slowdown flags are; so does the
  document-level scan when this holds of every GPU.
\<close>

theorem C5_hw_slowdown_short_circuit:
  "((\<forall>r. gpu_ClockEventReasons g = Some r \<longrightarrow> ce_HWSlowdown r \<noteq> ClockEventsActive) \<longrightarrow>
      FindHWSlowdownErrs g = None) \<and>
   ((\<forall>g \<in> set (out_GPUs out). \<forall>r. gpu_ClockEventReasons g = Some r \<longrightarrow> ce_HWSlowdown r \<noteq> ClockEventsActive) \<longrightarrow>
      SMIOutput_FindHWSlowdownErrs out = None)"
proof -
  have one: "FindHWSlowdownErrs g = None"
    if "\<forall>r. gpu_ClockEventReasons g = Some r \<longrightarrow> ce_HWSlowdown r \<noteq> ClockEventsActive" for g
    using that by (simp add: FindHWSlowdownErrs_def split: option.splits)
  have all: "foldl (\<lambda>errs g.
                 (if gpu_ClockEventReasons g = None then errs
                  else (let herrs = FindHWSlowdownErrs g in
                        if len herrs = 0 then errs else errs @ elems herrs))) acc gs = acc"
    if "\<forall>g \<in> set gs. \<forall>r. gpu_ClockEventReasons g = Some r \<longrightarrow> ce_HWSlowdown r \<noteq> ClockEventsActive"
    for gs acc
    using that by (induction gs arbitrary: acc) (simp_all add: one)
  show ?thesis
    using one [of g] all [of "out_GPUs out" "[]"]
    by (simp add: SMIOutput_FindHWSlowdownErrs_def)
qed

theorem C5_hw_slowdown_short_circuit_witness:
  "ce_HWSlowdown (ce_sample ''Not Active'' ''Active'' ''Active'') \<noteq> ClockEventsActive \<and>
   FindHWSlowdownErrs (gpu_sample (Some (ce_sample ''Not Active'' ''Active'' ''Active'')) None) = None \<and>
   SMIOutput_FindHWSlowdownErrs
     (out_sample [gpu_sample (Some (ce_sample ''Not Active'' ''Active'' ''Active'')) None]) = None"
  using C5_hw_slowdown_short_circuit
          [of "gpu_sample (Some (ce_sample ''Not Active'' ''Active'' ''Active'')) None"
              "out_sample [gpu_sample (Some (ce_sample ''Not Active'' ''Active'' ''Active'')) None]"]
  by (simp add: gpu_sample_def ce_sample_def out_sample_def ClockEventsActive_def)

lemma FindErrs_clean:
  assumes "\<forall>f \<in> set (scannedFields g). \<not> Contains f ''Unknown Error''"
  shows "FindErrs g = None"
  using assms
  by (simp add: FindErrs_def scannedFields_def appendIf_def FindAddressingModeErr_def
        split: option.splits)

text \<open>
  Claim C6. Every anomaly scan returns nil, never an empty non-nil list, when it
  found nothing: a result of length 0 is nil for the per-device scan, the
  document-level scan, both HW-slowdown scans and the ECC scan; and the per-device
  scan finds nothing when no scanned field contains \<open>Unknown Error\<close>.
\<close>

theorem C6_scans_return_nil:
  "(len (FindErrs g) = 0 \<longrightarrow> FindErrs g = None) \<and>
   (len (FindGPUErrs out) = 0 \<longrightarrow> FindGPUErrs out = None) \<and>
   (len (FindHWSlowdownErrs g) = 0 \<longrightarrow> FindHWSlowdownErrs g = None) \<and>
   (len (SMIOutput_FindHWSlowdownErrs out) = 0 \<longrightarrow> SMIOutput_FindHWSlowdownErrs out = None) \<and>
   (len (FindVolatileUncorrectableErrs eccErrs) = 0 \<longrightarrow> FindVolatileUncorrectableErrs eccErrs = None) \<and>
   ((\<forall>f \<in> set (scannedFields g). \<not> Contains f ''Unknown Error'') \<longrightarrow> FindErrs g = None)"
proof -
  have 1: "len (FindErrs g) = 0 \<longrightarrow> FindErrs g = None"
    unfolding FindErrs_def Let_def by (simp only: len_zero_nil simp_thms)
  have 2: "len (FindGPUErrs out) = 0 \<longrightarrow> FindGPUErrs out = None"
    unfolding FindGPUErrs_def Let_def by (simp only: len_zero_nil simp_thms)
  have 3: "len (FindHWSlowdownErrs g) = 0 \<longrightarrow> FindHWSlowdownErrs g = None"
    unfolding FindHWSlowdownErrs_def Let_def by (simp only: len_zero_nil simp_thms)
  have 4: "len (SMIOutput_FindHWSlowdownErrs out) = 0 \<longrightarrow> SMIOutput_FindHWSlowdownErrs out = None"
    unfolding SMIOutput_FindHWSlowdownErrs_def Let_def by (simp only: len_zero_nil simp_thms)
  have 5: "len (FindVolatileUncorrectableErrs eccErrs) = 0 \<longrightarrow> FindVolatileUncorrectableErrs eccErrs = None"
    unfolding FindVolatileUncorrectableErrs_def Let_def by (simp only: len_zero_nil simp_thms)
  show ?thesis using 1 2 3 4 5 FindErrs_clean [of g] by blast
qed

lemma Contains_samples:
  "\<not> Contains ''None'' ''Unknown Error''" "\<not> Contains ''N/A'' ''Unknown Error''"
  "\<not> Contains ''| N/A   38C    P0   71W / 700W |'' ''ERR!''"
  by (simp_all add: HasPrefix_def)

theorem C6_scans_return_nil_witness:
  "list_all (\<lambda>f. \<not> Contains f ''Unknown Error'') (scannedFields (gpu_sample None None)) \<and>
   len (FindErrs (gpu_sample None None)) = 0 \<and> FindErrs (gpu_sample None None) = None \<and>
   len (FindGPUErrs (out_sample [gpu_sample None None])) = 0 \<and>
   FindGPUErrs (out_sample [gpu_sample None None]) = None \<and>
   len (FindHWSlowdownErrs (gpu_sample None None)) = 0 \<and>
   FindHWSlowdownErrs (gpu_sample None None) = None \<and>
   len (SMIOutput_FindHWSlowdownErrs (out_sample [gpu_sample None None])) = 0 \<and>
   SMIOutput_FindHWSlowdownErrs (out_sample [gpu_sample None None]) = None \<and>
   len (FindVolatileUncorrectableErrs (ecc_sample ''0'')) = 0 \<and>
   FindVolatileUncorrectableErrs (ecc_sample ''0'') = None"
proof -
  have f: "\<forall>f \<in> set (scannedFields (gpu_sample None None)). \<not> Contains f ''Unknown Error''"
    by (simp add: scannedFields_def gpu_sample_def HasPrefix_def)
  have e: "FindErrs (gpu_sample None None) = None"
    using f C6_scans_return_nil [of "gpu_sample None None"] by blast
  have s: "FindSummaryErr ''| N/A   38C    P0   71W / 700W |'' = []"
    by (simp add: FindSummaryErr_def newline_def Split.simps HasPrefix_def Contains_samples)
  have d: "FindGPUErrs (out_sample [gpu_sample None None]) = None"
    by (simp add: FindGPUErrs_def out_sample_def e s appendIf_def)
  have h: "FindHWSlowdownErrs (gpu_sample None None) = None"
    by (simp add: FindHWSlowdownErrs_def gpu_sample_def)
  have o: "SMIOutput_FindHWSlowdownErrs (out_sample [gpu_sample None None]) = None"
    by (simp add: SMIOutput_FindHWSlowdownErrs_def out_sample_def gpu_sample_def)
  have v: "FindVolatileUncorrectableErrs (ecc_sample ''0'') = None"
    by (simp add: FindVolatileUncorrectableErrs_def ecc_sample_def appendIf_def)
  show ?thesis using f e d h o v by (simp add: list_all_iff)
qed


subsection \<open>Decoder fallback\<close>

lemma SplitFirst_truncates:
  assumes "sep \<noteq> []"
  shows "SplitFirst s sep = (case Index s sep of None \<Rightarrow> s | Some i \<Rightarrow> take i s)"
  using assms by (subst SplitFirst_def, subst Split.simps) (simp split: option.splits)

text \<open>
  Claim C3. When the full-schema decode of the rewritten text fails with \<open>err\<close> and
  the reduced-schema decode of the rewritten text, cut before its first line that
  starts with \<open>GPU\<close>, yields the header \<open>fb\<close>, then \<open>ParseSMIQueryOutput\<close> returns a
  non-nil document whose timestamp, driver version, CUDA version and attached-GPU
  count are those of \<open>fb\<close> and which has no devices, together with the original
  error \<open>err\<close>.
\<close>

theorem C3_fallback_keeps_header:
  assumes "yamlRaw (rewriteLines b) = Inl err"
    and "yamlFallback (case Index (rewriteLines b) (newline @ ''GPU'') of
                         None \<Rightarrow> rewriteLines b
                       | Some i \<Rightarrow> take i (rewriteLines b)) = Inr fb"
  shows "\<exists>doc. ParseSMIQueryOutput yamlRaw yamlFallback b = (Some doc, Some err) \<and>
           out_Timestamp doc = fbk_Timestamp fb \<and>
           out_DriverVersion doc = fbk_DriverVersion fb \<and>
           out_CUDAVersion doc = fbk_CUDAVersion fb \<and>
           out_AttachedGPUs doc = fbk_AttachedGPUs fb \<and>
           out_GPUs doc = []"
proof -
  have "SplitFirst (rewriteLines b) (newline @ ''GPU'') =
          (case Index (rewriteLines b) (newline @ ''GPU'') of
             None \<Rightarrow> rewriteLines b | Some i \<Rightarrow> take i (rewriteLines b))"
    by (rule SplitFirst_truncates) (simp add: newline_def)
  with assms show ?thesis
    by (simp add: ParseSMIQueryOutput_def)
qed

lemma smi_drift_rewrites: "rewriteLines smi_drift = smi_drift_rewritten"
  by code_simp

lemma smi_drift_truncates:
  "(case Index smi_drift_rewritten (newline @ ''GPU'') of
      None \<Rightarrow> smi_drift_rewritten
    | Some i \<Rightarrow> take i smi_drift_rewritten) = smi_drift_header"
  by code_simp

lemma smi_drift_raw_fails:
  "yamlRaw_samples (rewriteLines smi_drift) =
     Inl (lib_error ''json: cannot unmarshal string into Go struct field NvidiaSMIGPU.GPU0.Temperature'')"
  unfolding smi_drift_rewrites by (simp add: yamlRaw_samples_def)

lemma smi_drift_fallback_ok:
  "yamlFallback_samples (case Index (rewriteLines smi_drift) (newline @ ''GPU'') of
                           None \<Rightarrow> rewriteLines smi_drift
                         | Some i \<Rightarrow> take i (rewriteLines smi_drift)) =
     Inr \<lparr> fbk_Timestamp = ''Sun Nov  1 12:00:00 2026'', fbk_DriverVersion = ''535.129.03'',
           fbk_CUDAVersion = ''12.2'', fbk_AttachedGPUs = 1 \<rparr>"
  unfolding smi_drift_rewrites smi_drift_truncates by (simp add: yamlFallback_samples_def)

theorem C3_fallback_keeps_header_witness:
  "yamlRaw_samples (rewriteLines smi_drift) =
     Inl (lib_error ''json: cannot unmarshal string into Go struct field NvidiaSMIGPU.GPU0.Temperature'') \<and>
   (\<exists>doc. ParseSMIQueryOutput yamlRaw_samples yamlFallback_samples smi_drift =
             (Some doc, Some (lib_error ''json: cannot unmarshal string into Go struct field NvidiaSMIGPU.GPU0.Temperature'')) \<and>
           out_Timestamp doc = ''Sun Nov  1 12:00:00 2026'' \<and>
           out_DriverVersion doc = ''535.129.03'' \<and>
           out_CUDAVersion doc = ''12.2'' \<and>
           out_AttachedGPUs doc = 1 \<and>
           out_GPUs doc = [])"
  using C3_fallback_keeps_header [of yamlRaw_samples smi_drift _ yamlFallback_samples,
          OF smi_drift_raw_fails smi_drift_fallback_ok]
        smi_drift_raw_fails
  by simp

text \<open>
  Claim C10. When the full-schema decode fails and the reduced-schema decode of the
  truncated text fails too, with \<open>rerr\<close>, \<open>ParseSMIQueryOutput\<close> returns a nil
  document and \<open>rerr\<close>, the error of the second decode; no header is salvaged.
\<close>

theorem C10_double_failure:
  assumes "yamlRaw (rewriteLines b) = Inl err"
    and "yamlFallback (SplitFirst (rewriteLines b) (newline @ ''GPU'')) = Inl rerr"
  shows "ParseSMIQueryOutput yamlRaw yamlFallback b = (None, Some rerr)"
  using assms by (simp add: ParseSMIQueryOutput_def)

lemma smi_badcount_rewrites: "rewriteLines smi_badcount = smi_badcount_rewritten"
  by code_simp

lemma smi_badcount_truncates:
  "SplitFirst smi_badcount_rewritten (newline @ ''GPU'') = smi_badcount_header"
  by code_simp

lemma smi_badcount_raw_fails:
  "yamlRaw_samples (rewriteLines smi_badcount) =
     Inl (lib_error ''json: cannot unmarshal string into Go struct field rawSMIQueryOutput.Attached GPUs of type int'')"
  unfolding smi_badcount_rewrites by code_simp

lemma smi_badcount_fallback_fails:
  "yamlFallback_samples (SplitFirst (rewriteLines smi_badcount) (newline @ ''GPU'')) =
     Inl (lib_error ''json: cannot unmarshal string into Go struct field smiQueryOutputFallback.Attached GPUs of type int'')"
  unfolding smi_badcount_rewrites smi_badcount_truncates by code_simp

theorem C10_double_failure_witness:
  "yamlRaw_samples (rewriteLines smi_badcount) =
     Inl (lib_error ''json: cannot unmarshal string into Go struct field rawSMIQueryOutput.Attached GPUs of type int'') \<and>
   yamlFallback_samples (SplitFirst (rewriteLines smi_badcount) (newline @ ''GPU'')) =
     Inl (lib_error ''json: cannot unmarshal string into Go struct field smiQueryOutputFallback.Attached GPUs of type int'') \<and>
   ParseSMIQueryOutput yamlRaw_samples yamlFallback_samples smi_badcount =
     (None, Some (lib_error ''json: cannot unmarshal string into Go struct field smiQueryOutputFallback.Attached GPUs of type int''))"
  using C10_double_failure [of yamlRaw_samples smi_badcount _ yamlFallback_samples,
          OF smi_badcount_raw_fails smi_badcount_fallback_fails]
        smi_badcount_raw_fails smi_badcount_fallback_fails
  by simp


subsection \<open>NVML instance: snapshots\<close>

lemma queryDevice_UUID:
  "di_UUID (fst (queryDevice q devInfo latestInfo)) = di_UUID latestInfo"
  by (simp add: queryDevice_def Let_def split: prod.splits)

lemma queried_UUID: "di_UUID (queried q devInfo) = di_UUID devInfo"
  by (simp add: queried_def queryDevice_UUID latestInfoOf_def)

lemma rangeDevices_visits:
  "rangeDevices q devs ks infos =
     (infos @ map (queried q)
                (takeWhile (queriesOK q) (visited devs ks) @
                 take 1 (dropWhile (queriesOK q) (visited devs ks))),
      case dropWhile (queriesOK q) (visited devs ks) of
        [] \<Rightarrow> None
      | d # rest \<Rightarrow> queryError q d)"
proof (induction ks arbitrary: infos)
  case Nil
  show ?case by (simp add: visited_def)
next
  case (Cons k ks)
  show ?case
  proof (cases "devs k")
    case None
    then have "visited devs (k # ks) = visited devs ks" by (simp add: visited_def)
    with None Cons.IH [of infos] show ?thesis by simp
  next
    case (Some d)
    then have v: "visited devs (k # ks) = d # visited devs ks" by (simp add: visited_def)
    obtain l e where qd: "queryDevice q d (latestInfoOf q d) = (l, e)"
      by (cases "queryDevice q d (latestInfoOf q d)")
    then have l: "queried q d = l" and e: "queryError q d = e"
      by (simp_all add: queried_def queryError_def)
    show ?thesis
    proof (cases e)
      case None
      then have "queriesOK q d" using e by (simp add: queriesOK_def)
      with Some qd None Cons.IH [of "infos @ [l]"] l show ?thesis
        by (simp add: v)
    next
      case (Some err)
      then have "\<not> queriesOK q d" using e by (simp add: queriesOK_def)
      with \<open>devs k = Some d\<close> qd Some l e show ?thesis
        by (simp add: v)
    qed
  qed
qed

lemma map_insort_key: "map f (insort_key f x xs) = insort (f x) (map f xs)"
  by (induction xs) simp_all

lemma map_sort_key: "map f (sort_key f xs) = sort (map f xs)"
  by (induction xs) (simp_all add: map_insort_key)

text \<open>
  Claim C7, as amended. On an initialised instance, let the devices be taken in the
  order the map range visits them. When the queries of every device succeed, \<open>Get\<close>
  returns no error and the fresh infos of all the devices sorted by UUID. When the
  queries of some device fail, \<open>Get\<close> returns the error of the first such device and
  the fresh infos of the devices visited up to and including that one, in visiting
  order: this list is not sorted again, so it is in UUID order only if the range
  visited those devices in that order.
\<close>

theorem C7_sorted_on_success:
  "nvmlLib inst \<noteq> None \<longrightarrow>
     (case dropWhile (queriesOK q) (visited (devices inst) order) of
        [] \<Rightarrow>
          Get q order inst =
            (Some \<lparr> o_Exists = nvmlExists inst, o_Message = nvmlExistsMsg inst,
                    o_DeviceInfos = sort_key di_UUID (map (queried q) (visited (devices inst) order)) \<rparr>,
             None) \<and>
          uuidsOf (fst (Get q order inst)) = sort (map di_UUID (visited (devices inst) order)) \<and>
          sorted (uuidsOf (fst (Get q order inst)))
      | d # rest \<Rightarrow>
          Get q order inst =
            (Some \<lparr> o_Exists = nvmlExists inst, o_Message = nvmlExistsMsg inst,
                    o_DeviceInfos = map (queried q)
                      (takeWhile (queriesOK q) (visited (devices inst) order) @ [d]) \<rparr>,
             queryError q d) \<and>
          queryError q d \<noteq> None \<and>
          uuidsOf (fst (Get q order inst)) =
            map di_UUID (takeWhile (queriesOK q) (visited (devices inst) order) @ [d]))"
proof
  assume lib: "nvmlLib inst \<noteq> None"
  let ?ds = "visited (devices inst) order"
  note r = rangeDevices_visits [of q "devices inst" order "[]"]
  show "case dropWhile (queriesOK q) ?ds of
        [] \<Rightarrow>
          Get q order inst =
            (Some \<lparr> o_Exists = nvmlExists inst, o_Message = nvmlExistsMsg inst,
                    o_DeviceInfos = sort_key di_UUID (map (queried q) ?ds) \<rparr>,
             None) \<and>
          uuidsOf (fst (Get q order inst)) = sort (map di_UUID ?ds) \<and>
          sorted (uuidsOf (fst (Get q order inst)))
      | d # rest \<Rightarrow>
          Get q order inst =
            (Some \<lparr> o_Exists = nvmlExists inst, o_Message = nvmlExistsMsg inst,
                    o_DeviceInfos = map (queried q) (takeWhile (queriesOK q) ?ds @ [d]) \<rparr>,
             queryError q d) \<and>
          queryError q d \<noteq> None \<and>
          uuidsOf (fst (Get q order inst)) = map di_UUID (takeWhile (queriesOK q) ?ds @ [d])"
  proof (cases "dropWhile (queriesOK q) ?ds")
    case Nil
    then have all: "takeWhile (queriesOK q) ?ds = ?ds"
      by (metis append_Nil2 takeWhile_dropWhile_id)
    have g: "Get q order inst =
            (Some \<lparr> o_Exists = nvmlExists inst, o_Message = nvmlExistsMsg inst,
                    o_DeviceInfos = sort_key di_UUID (map (queried q) ?ds) \<rparr>, None)"
      using lib r Nil all by (simp add: Get_def)
    have su: "uuidsOf (fst (Get q order inst)) = sort (map di_UUID ?ds)"
      unfolding g by (simp add: uuidsOf_def infosOf_def map_sort_key queried_UUID comp_def)
    have so: "sorted (uuidsOf (fst (Get q order inst)))"
      unfolding su by simp
    from g su so have c: "Get q order inst =
            (Some \<lparr> o_Exists = nvmlExists inst, o_Message = nvmlExistsMsg inst,
                    o_DeviceInfos = sort_key di_UUID (map (queried q) ?ds) \<rparr>, None) \<and>
          uuidsOf (fst (Get q order inst)) = sort (map di_UUID ?ds) \<and>
          sorted (uuidsOf (fst (Get q order inst)))"
      by blast
    show ?thesis unfolding Nil list.case by (rule c)
  next
    case (Cons d rest)
    have nok: "\<not> queriesOK q d"
      using Cons by (metis hd_dropWhile list.sel(1) list.distinct(1))
    then obtain err where err: "queryError q d = Some err"
      by (auto simp: queriesOK_def)
    have g: "Get q order inst =
            (Some \<lparr> o_Exists = nvmlExists inst, o_Message = nvmlExistsMsg inst,
                    o_DeviceInfos = map (queried q) (takeWhile (queriesOK q) ?ds @ [d]) \<rparr>,
             queryError q d)"
      using lib r Cons err by (simp add: Get_def)
    have su: "uuidsOf (fst (Get q order inst)) = map di_UUID (takeWhile (queriesOK q) ?ds @ [d])"
      unfolding g by (simp add: uuidsOf_def infosOf_def queried_UUID)
    have ne: "queryError q d \<noteq> None" using err by simp
    from g ne su have c: "Get q order inst =
            (Some \<lparr> o_Exists = nvmlExists inst, o_Message = nvmlExistsMsg inst,
                    o_DeviceInfos = map (queried q) (takeWhile (queriesOK q) ?ds @ [d]) \<rparr>,
             queryError q d) \<and>
          queryError q d \<noteq> None \<and>
          uuidsOf (fst (Get q order inst)) = map di_UUID (takeWhile (queriesOK q) ?ds @ [d])"
      by blast
    show ?thesis unfolding Cons list.case by (rule c)
  qed
qed

lemma sample_visited:
  "visited (devices inst_sample) [''GPU-b'', ''GPU-a''] = [di_sample ''GPU-b'' 1, di_sample ''GPU-a'' 0]"
  by (simp add: visited_def inst_sample_def)

lemma sample_queries:
  "queriesOK (q_sample ''GPU-none'') (di_sample ''GPU-b'' 1)"
  "queriesOK (q_sample ''GPU-none'') (di_sample ''GPU-a'' 0)"
  "queriesOK (q_sample ''GPU-a'') (di_sample ''GPU-b'' 1)"
  "queryError (q_sample ''GPU-a'') (di_sample ''GPU-a'' 0) =
     Some (fmt_Errorf ''failed to get device clock events'')"
  by (simp_all add: queriesOK_def queryError_def q_sample_def queryDevice_def latestInfoOf_def
        di_sample_def)

lemma sample_lib: "nvmlLib inst_sample \<noteq> None"
  by (simp add: inst_sample_def)

lemma sample_uuids: "di_UUID (di_sample uuid handle) = uuid"
  by (simp add: di_sample_def)

theorem C7_sorted_on_success_witness:
  "nvmlLib inst_sample \<noteq> None \<and>
   dropWhile (queriesOK (q_sample ''GPU-none'')) (visited (devices inst_sample) [''GPU-b'', ''GPU-a'']) = [] \<and>
   snd (Get (q_sample ''GPU-none'') [''GPU-b'', ''GPU-a''] inst_sample) = None \<and>
   uuidsOf (fst (Get (q_sample ''GPU-none'') [''GPU-b'', ''GPU-a''] inst_sample)) = [''GPU-a'', ''GPU-b''] \<and>
   sorted (uuidsOf (fst (Get (q_sample ''GPU-none'') [''GPU-b'', ''GPU-a''] inst_sample))) \<and>
   dropWhile (queriesOK (q_sample ''GPU-a'')) (visited (devices inst_sample) [''GPU-b'', ''GPU-a'']) =
     [di_sample ''GPU-a'' 0] \<and>
   snd (Get (q_sample ''GPU-a'') [''GPU-b'', ''GPU-a''] inst_sample) =
     Some (fmt_Errorf ''failed to get device clock events'') \<and>
   uuidsOf (fst (Get (q_sample ''GPU-a'') [''GPU-b'', ''GPU-a''] inst_sample)) = [''GPU-b'', ''GPU-a'']"
proof -
  have ok: "dropWhile (queriesOK (q_sample ''GPU-none''))
              (visited (devices inst_sample) [''GPU-b'', ''GPU-a'']) = []"
    using sample_queries by (simp add: sample_visited)
  have bad: "dropWhile (queriesOK (q_sample ''GPU-a''))
               (visited (devices inst_sample) [''GPU-b'', ''GPU-a'']) = [di_sample ''GPU-a'' 0]"
       "takeWhile (queriesOK (q_sample ''GPU-a''))
               (visited (devices inst_sample) [''GPU-b'', ''GPU-a'']) = [di_sample ''GPU-b'' 1]"
    using sample_queries by (simp_all add: sample_visited queriesOK_def)
  note a = C7_sorted_on_success [of inst_sample "q_sample ''GPU-none''" "[''GPU-b'', ''GPU-a'']",
      THEN mp, OF sample_lib, unfolded ok list.case]
  note b = C7_sorted_on_success [of inst_sample "q_sample ''GPU-a''" "[''GPU-b'', ''GPU-a'']",
      THEN mp, OF sample_lib, unfolded bad list.case]
  have 1: "snd (Get (q_sample ''GPU-none'') [''GPU-b'', ''GPU-a''] inst_sample) = None"
    using a by simp
  have 2: "uuidsOf (fst (Get (q_sample ''GPU-none'') [''GPU-b'', ''GPU-a''] inst_sample)) =
             sort (map di_UUID (visited (devices inst_sample) [''GPU-b'', ''GPU-a'']))"
    using a by blast
  have 3: "sorted (uuidsOf (fst (Get (q_sample ''GPU-none'') [''GPU-b'', ''GPU-a''] inst_sample)))"
    using a by blast
  have 4: "snd (Get (q_sample ''GPU-a'') [''GPU-b'', ''GPU-a''] inst_sample) =
             queryError (q_sample ''GPU-a'') (di_sample ''GPU-a'' 0)"
    using b by simp
  have 5: "uuidsOf (fst (Get (q_sample ''GPU-a'') [''GPU-b'', ''GPU-a''] inst_sample)) =
             map di_UUID ([di_sample ''GPU-b'' 1] @ [di_sample ''GPU-a'' 0])"
    using b by blast
  have s: "sort (map di_UUID (visited (devices inst_sample) [''GPU-b'', ''GPU-a''])) = [''GPU-a'', ''GPU-b'']"
    by (simp add: sample_visited sample_uuids)
  show ?thesis
    using sample_lib ok bad(1) 1 2 3 4 5 s sample_queries by (simp add: sample_uuids)
qed

lemma sample_range_fails:
  "rangeDevices (q_sample ''GPU-a'') (devices inst_sample) [''GPU-b'', ''GPU-a''] [] =
     ([(di_sample ''GPU-b'' 1) \<lparr> di_ClockEvents := 1, di_ClockSpeed := 2, di_Memory := 3, di_NVLink := 4,
          di_Power := 5, di_Temperature := 6, di_Utilization := 7, di_Processes := 8, di_ECCErrors := 9 \<rparr>,
       di_sample ''GPU-a'' 0],
      Some (fmt_Errorf ''failed to get device clock events''))"
  by (simp add: inst_sample_def q_sample_def queryDevice_def latestInfoOf_def di_sample_def)

text \<open>
  The claim as stated fails for the partial result: with the devices \<open>GPU-a\<close> and
  \<open>GPU-b\<close>, the range visiting \<open>GPU-b\<close> first and the first query failing on
  \<open>GPU-a\<close>, \<open>Get\<close> returns the error and the list \<open>GPU-b\<close>, \<open>GPU-a\<close>.
\<close>

theorem C7_partial_result_counterexample:
  "snd (Get (q_sample ''GPU-a'') [''GPU-b'', ''GPU-a''] inst_sample) =
     Some (fmt_Errorf ''failed to get device clock events'') \<and>
   uuidsOf (fst (Get (q_sample ''GPU-a'') [''GPU-b'', ''GPU-a''] inst_sample)) = [''GPU-b'', ''GPU-a''] \<and>
   \<not> sorted (uuidsOf (fst (Get (q_sample ''GPU-a'') [''GPU-b'', ''GPU-a''] inst_sample)))"
  using sample_lib unfolding Get_def sample_range_fails uuidsOf_def infosOf_def
  by (simp add: di_sample_def)


subsection \<open>NVML instance: the event loop\<close>

lemma pollIteration_publishes:
  "snd (pollIteration getDetail errorString inp ch) = ch \<or>
   snd (pollIteration getDetail errorString inp ch) =
     ch @ [if waitRet inp \<noteq> SUCCESS then waitFailureEvent errorString (waitRet inp)
           else xidEvent getDetail (waitEvent inp)] \<and>
   waitRet inp \<noteq> ERROR_TIMEOUT"
  by (simp add: pollIteration_def)

lemma publishedBy_failure:
  "ret \<noteq> SUCCESS \<Longrightarrow> ret \<noteq> ERROR_TIMEOUT \<Longrightarrow> waitRet inp = ret \<Longrightarrow>
   publishedBy errorString inp (waitFailureEvent errorString ret)"
  by (simp add: publishedBy_def waitFailureEvent_def)

lemma publishedBy_success:
  "waitRet inp = SUCCESS \<Longrightarrow> publishedBy errorString inp (xidEvent getDetail (waitEvent inp))"
  by (simp add: publishedBy_def xidEvent_def Let_def)

lemma pollIteration_accounted:
  "snd (pollIteration getDetail errorString inp ch) = ch \<or>
   (\<exists>ev. snd (pollIteration getDetail errorString inp ch) = ch @ [ev] \<and>
         waitRet inp \<noteq> ERROR_TIMEOUT \<and> publishedBy errorString inp ev)"
proof (cases "waitRet inp = SUCCESS")
  case True
  with pollIteration_publishes [of getDetail errorString inp ch]
       publishedBy_success [of inp errorString getDetail]
  show ?thesis by auto
next
  case False
  with pollIteration_publishes [of getDetail errorString inp ch]
       publishedBy_failure [of "waitRet inp" inp errorString]
  show ?thesis by auto
qed

lemma pollXidEvents_accounted:
  "\<exists>new. snd (pollXidEvents getDetail errorString inps ch) = ch @ new \<and>
         length new \<le> length (filter (\<lambda>i. waitRet i \<noteq> ERROR_TIMEOUT) inps) \<and>
         (\<forall>ev \<in> set new. \<exists>inp \<in> set inps. publishedBy errorString inp ev)"
proof (induction inps arbitrary: ch)
  case Nil
  show ?case by simp
next
  case (Cons inp inps)
  obtain s ch' where it: "pollIteration getDetail errorString inp ch = (s, ch')"
    by (cases "pollIteration getDetail errorString inp ch")
  from pollIteration_accounted [of getDetail errorString inp ch] it
  obtain one where one: "ch' = ch @ one"
      "length one \<le> (if waitRet inp \<noteq> ERROR_TIMEOUT then 1 else 0)"
      "\<forall>ev \<in> set one. publishedBy errorString inp ev"
    by (cases "ch' = ch") auto
  show ?case
  proof (cases s)
    case Returned
    with it one show ?thesis by (auto split: if_splits)
  next
    case Looping
    from Cons.IH [of ch'] obtain new where new:
      "snd (pollXidEvents getDetail errorString inps ch') = ch' @ new"
      "length new \<le> length (filter (\<lambda>i. waitRet i \<noteq> ERROR_TIMEOUT) inps)"
      "\<forall>ev \<in> set new. \<exists>inp \<in> set inps. publishedBy errorString inp ev"
      by blast
    have "snd (pollXidEvents getDetail errorString (inp # inps) ch) = ch @ (one @ new)"
      using it Looping one(1) new(1) by simp
    moreover have "length (one @ new) \<le> length (filter (\<lambda>i. waitRet i \<noteq> ERROR_TIMEOUT) (inp # inps))"
      using one(2) new(2) by (simp split: if_splits)
    moreover have "\<forall>ev \<in> set (one @ new). \<exists>i \<in> set (inp # inps). publishedBy errorString i ev"
      using one(3) new(3) by auto
    ultimately show ?thesis by blast
  qed
qed

text \<open>
  Claim C8. An iteration of the event loop whose wait times out leaves the event
  queue as it was. Over any run of the loop, the queue only grows, by at most one
  event for each wait that did not time out, and every event added is accounted for
  by an iteration whose wait did not time out: a failed wait, the event carrying the
  wait error and no fault code, or a successful wait, the event carrying the decoded
  fault code and no error. When every wait times out nothing is published.
\<close>

theorem C8_timeout_never_publishes:
  "(waitRet inp = ERROR_TIMEOUT \<longrightarrow> snd (pollIteration getDetail errorString inp ch) = ch) \<and>
   (\<exists>new. snd (pollXidEvents getDetail errorString inps ch) = ch @ new \<and>
          length new \<le> length (filter (\<lambda>i. waitRet i \<noteq> ERROR_TIMEOUT) inps) \<and>
          (\<forall>ev \<in> set new. \<exists>i \<in> set inps. publishedBy errorString i ev)) \<and>
   ((\<forall>i \<in> set inps. waitRet i = ERROR_TIMEOUT) \<longrightarrow>
      snd (pollXidEvents getDetail errorString inps ch) = ch)"
proof -
  have 1: "waitRet inp = ERROR_TIMEOUT \<longrightarrow> snd (pollIteration getDetail errorString inp ch) = ch"
    by (simp add: pollIteration_def)
  note 2 = pollXidEvents_accounted [of getDetail errorString inps ch]
  have 3: "(\<forall>i \<in> set inps. waitRet i = ERROR_TIMEOUT) \<longrightarrow>
      snd (pollXidEvents getDetail errorString inps ch) = ch"
  proof
    assume "\<forall>i \<in> set inps. waitRet i = ERROR_TIMEOUT"
    then have "filter (\<lambda>i. waitRet i \<noteq> ERROR_TIMEOUT) inps = []"
      by (simp add: filter_empty_conv)
    with 2 show "snd (pollXidEvents getDetail errorString inps ch) = ch" by auto
  qed
  from 1 2 3 show ?thesis by blast
qed

theorem C8_timeout_never_publishes_witness:
  "waitRet (in_sample ERROR_TIMEOUT) = ERROR_TIMEOUT \<and>
   snd (pollIteration (\<lambda>i. (None :: unit option, False)) es_sample (in_sample ERROR_TIMEOUT) []) = [] \<and>
   list_all (\<lambda>i. waitRet i = ERROR_TIMEOUT) [in_sample ERROR_TIMEOUT, in_sample ERROR_TIMEOUT] \<and>
   snd (pollXidEvents (\<lambda>i. (None :: unit option, False)) es_sample
          [in_sample ERROR_TIMEOUT, in_sample ERROR_TIMEOUT] []) = [] \<and>
   snd (pollXidEvents (\<lambda>i. (None :: unit option, False)) es_sample
          [in_sample ERROR_TIMEOUT, in_sample (ERROR_OTHER 999), in_sample SUCCESS] []) =
     [waitFailureEvent es_sample (ERROR_OTHER 999),
      xidEvent (\<lambda>i. (None :: unit option, False)) (waitEvent (in_sample SUCCESS))]"
  using C8_timeout_never_publishes [of "in_sample ERROR_TIMEOUT" "\<lambda>i. (None :: unit option, False)"
          es_sample "[]" "[in_sample ERROR_TIMEOUT, in_sample ERROR_TIMEOUT]"]
  by (simp add: in_sample_def pollIteration_def)


subsection \<open>NVML instance: shutdown\<close>

lemma Shutdown_ok_nil: "Shutdown errorString freeRet shutdownRet inst = (inst', None) \<Longrightarrow> nvmlLib inst' = None"
  by (auto simp: Shutdown_def Let_def split: if_splits)

lemma perform_after_shutdown:
  "nvmlLib inst = None \<Longrightarrow> perform errorString q c inst = (replyAfterShutdown inst c, inst)"
  by (cases c)
     (simp_all add: Shutdown_def Get_def Exists_def RecvXidEvents_def Start_def NVMLExists_def)

lemma performAll_after_shutdown:
  "nvmlLib inst = None \<Longrightarrow>
   performAll errorString q cs inst = (map (replyAfterShutdown inst) cs, inst)"
  by (induction cs) (simp_all add: perform_after_shutdown)

text \<open>
  Claim C9. After a \<open>Shutdown\<close> that returned no error, the library handle is nil;
  a further \<open>Shutdown\<close> returns no error and changes nothing, whatever the library
  would answer; \<open>Get\<close> returns no output and the error \<open>nvml not initialized\<close>,
  and \<open>Start\<close> returns that error too; and so it is for every sequence of further
  calls of the instance's methods, which leaves the instance as it is.
\<close>

theorem C9_after_shutdown:
  "Shutdown errorString freeRet shutdownRet inst = (inst', None) \<longrightarrow>
     nvmlLib inst' = None \<and>
     Shutdown errorString freeRet' shutdownRet' inst' = (inst', None) \<and>
     Get q order inst' = (None, Some (errors_New ''nvml not initialized'')) \<and>
     Start errorString lib zero inst' = (inst', Some (errors_New ''nvml not initialized'')) \<and>
     performAll errorString q cs inst' = (map (replyAfterShutdown inst') cs, inst')"
proof
  assume "Shutdown errorString freeRet shutdownRet inst = (inst', None)"
  then have n: "nvmlLib inst' = None" by (rule Shutdown_ok_nil)
  then show "nvmlLib inst' = None \<and>
     Shutdown errorString freeRet' shutdownRet' inst' = (inst', None) \<and>
     Get q order inst' = (None, Some (errors_New ''nvml not initialized'')) \<and>
     Start errorString lib zero inst' = (inst', Some (errors_New ''nvml not initialized'')) \<and>
     performAll errorString q cs inst' = (map (replyAfterShutdown inst') cs, inst')"
    by (simp add: Shutdown_def Get_def Start_def performAll_after_shutdown)
qed

lemma sample_Shutdown:
  "Shutdown es_sample SUCCESS SUCCESS inst_sample =
     (inst_sample \<lparr> rootCancelled := True, eventSet := None, nvmlLib := None \<rparr>, None)"
  by (simp add: Shutdown_def inst_sample_def)

theorem C9_after_shutdown_witness:
  "Shutdown es_sample SUCCESS SUCCESS inst_sample =
     (inst_sample \<lparr> rootCancelled := True, eventSet := None, nvmlLib := None \<rparr>, None) \<and>
   performAll es_sample (q_sample ''GPU-none'')
       [Call_Shutdown (ERROR_OTHER 999) SUCCESS, Call_Get [''GPU-b'', ''GPU-a''], Call_Start lib_sample,
        Call_Shutdown SUCCESS SUCCESS]
       (inst_sample \<lparr> rootCancelled := True, eventSet := None, nvmlLib := None \<rparr>) =
     ([Reply_Shutdown None, Reply_Get (None, Some (errors_New ''nvml not initialized'')),
       Reply_Start (Some (errors_New ''nvml not initialized'')), Reply_Shutdown None],
      inst_sample \<lparr> rootCancelled := True, eventSet := None, nvmlLib := None \<rparr>)"
  using C9_after_shutdown [of es_sample SUCCESS SUCCESS inst_sample
          "inst_sample \<lparr> rootCancelled := True, eventSet := None, nvmlLib := None \<rparr>"
          SUCCESS SUCCESS "q_sample ''GPU-none''" "[]" lib_sample 0
          "[Call_Shutdown (ERROR_OTHER 999) SUCCESS, Call_Get [''GPU-b'', ''GPU-a''], Call_Start lib_sample,
            Call_Shutdown SUCCESS SUCCESS]"]
        sample_Shutdown
  by simp

end
